theory Spec2Isabelle
  imports Complex_Main
begin

section \<open>Physical parameters (module-level constants of rb87\_mot\_model.py)\<close>

text \<open>
  Floating-point numbers of the program are modelled as reals: rounding, overflow and the
  infinities of a division by zero are outside the model. The quotients that a run can
  evaluate as 0/0 (a population of no atoms, the mean velocity of an empty level) are
  modelled explicitly as not-a-number, written \<open>None\<close>. The two constants imported
  from the numerical library are written out with their SI values: the Boltzmann constant
  \<open>k\<close> and the reduced Planck constant \<open>hbar = h / (2 pi)\<close>.
\<close>

definition k :: real where
  "k = 1.380649 / 10 ^ 23"

definition hbar :: real where
  "hbar = (6.62607015 / 10 ^ 34) / (2 * pi)"

definition mass_Rb :: real where
  "mass_Rb = 87 * (1.66 / 10 ^ 27)"

definition wavelength :: real where
  "wavelength = 780.241 / 10 ^ 9"

definition k_L :: real where
  "k_L = 2 * pi / wavelength"

definition Gamma :: real where
  "Gamma = 2 * pi * (6.07 * 10 ^ 6)"

definition P_laser :: real where
  "P_laser = (8 / 10 ^ 3) / 6"

definition beam_diameter :: real where
  "beam_diameter = 9 / 10 ^ 3"

definition I_s :: real where
  "I_s = 25"

definition T0 :: real where
  "T0 = 360"

definition beam_radius :: real where
  "beam_radius = beam_diameter / 2"

definition wavelength_fluctuation :: real where
  "wavelength_fluctuation = 5 / 10 ^ 8"

definition power_fluctuation :: real where
  "power_fluctuation = 0.1"

definition magnetic_fluctuation :: real where
  "magnetic_fluctuation = 0.075"

definition repumper_intensity :: real where
  "repumper_intensity = 1 / 10 ^ 3"

definition repumper_wavelength :: real where
  "repumper_wavelength = 780.244 / 10 ^ 9"

definition repumper_effect :: real where
  "repumper_effect = 0.6"

text \<open>
  The transition table is a dictionary literal; iterating over its items follows the
  insertion order, so it is an association list in the order of the source.
\<close>

definition transition_probabilities :: "((int \<times> int) \<times> real) list" where
  "transition_probabilities =
     [((0, 1), 5 / 10 ^ 21),
      ((1, 2), 0.6),
      ((2, 3), 5 / 10 ^ 21),
      ((1, 0), 0.2),
      ((2, 1), 0.8),
      ((3, 2), 5 / 10 ^ 21)]"

section \<open>Random source, store and errors\<close>

text \<open>
  The ambient generator is made explicit: \<open>g i\<close> is the \<open>i\<close>-th primitive variate it
  hands out (a standard normal deviate when the call is a normal draw, a uniform deviate
  of the half-open unit interval when the call is rand, uniform or choice), and the
  number of variates consumed so far is part of the state.

  Arrays are objects: a variable holds a reference, \<open>+=\<close> and item assignment change the
  object in place, and appending an array to a list stores the reference. The store maps
  addresses to array contents, with one address space for float arrays and one for
  integer arrays. \<open>steps_done\<close> is not a program variable: it counts the bodies of the
  time loop that have run to their end.
\<close>

record world =
  draws :: nat
  farr :: "nat \<Rightarrow> real list"
  iarr :: "nat \<Rightarrow> int list"
  next_addr :: nat
  steps_done :: nat

datatype error =
    ZeroStep            \<comment> \<open>arange with step 0\<close>
  | NegativeDimensions  \<comment> \<open>an array of negative size is requested\<close>
  | ShapeMismatch       \<comment> \<open>operands or a boolean mask of incompatible shapes\<close>
  | NegativeLevel       \<comment> \<open>bincount of a negative value\<close>
  | NoRuns              \<comment> \<open>mean over axis 1 of an empty list (line 230)\<close>
  | NoSteps             \<comment> \<open>index -1 of an empty array (line 237)\<close>

definition normal :: "(nat \<Rightarrow> real) \<Rightarrow> nat \<Rightarrow> real \<Rightarrow> real \<Rightarrow> real" where
  "normal g c loc scale = loc + scale * g c"

definition rand_n :: "(nat \<Rightarrow> real) \<Rightarrow> nat \<Rightarrow> nat \<Rightarrow> real list" where
  "rand_n g c n = map g [c..<c + n]"

definition mean :: "real list \<Rightarrow> real" where
  "mean xs = sum_list xs / real (length xs)"

section \<open>transition\_between\_levels\<close>

text \<open>
  The inner loop over the items of the table, for atom \<open>i\<close>: one uniform draw per pair,
  taken before the level is looked at; the level read is the current content of the
  array.
\<close>

fun pairs_loop ::
  "(nat \<Rightarrow> real) \<Rightarrow> real \<Rightarrow> real \<Rightarrow> ((int \<times> int) \<times> real) list \<Rightarrow> nat \<Rightarrow> int list \<Rightarrow> nat
     \<Rightarrow> int list \<times> nat" where
  "pairs_loop g temperature dt [] i lv c = (lv, c)"
| "pairs_loop g temperature dt (((start, end'), prob) # rest) i lv c =
     (let transition_prob = prob * exp (- \<bar>real_of_int (start - end')\<bar> * temperature / k) * dt
      in pairs_loop g temperature dt rest i
           (if g c < transition_prob then (if lv ! i = start then lv[i := end'] else lv) else lv)
           (c + 1))"

fun atoms_loop ::
  "(nat \<Rightarrow> real) \<Rightarrow> real \<Rightarrow> real \<Rightarrow> nat list \<Rightarrow> int list \<Rightarrow> nat \<Rightarrow> int list \<times> nat" where
  "atoms_loop g temperature dt [] lv c = (lv, c)"
| "atoms_loop g temperature dt (i # is) lv c =
     (case pairs_loop g temperature dt transition_probabilities i lv c of
        (lv', c') \<Rightarrow> atoms_loop g temperature dt is lv' c')"

text \<open>
  The function changes the array it is given and returns the same reference.
\<close>

definition transition_between_levels ::
  "(nat \<Rightarrow> real) \<Rightarrow> world \<Rightarrow> nat \<Rightarrow> real \<Rightarrow> real \<Rightarrow> nat \<times> world" where
  "transition_between_levels g w lref temperature dt =
     (case atoms_loop g temperature dt [0..<length (iarr w lref)] (iarr w lref) (draws w) of
        (lv', c') \<Rightarrow> (lref, w\<lparr>draws := c', iarr := (iarr w)(lref := lv')\<rparr>))"

section \<open>scattering\_force\<close>

definition scattering_force ::
  "(nat \<Rightarrow> real) \<Rightarrow> nat \<Rightarrow> real \<Rightarrow> real \<Rightarrow> real \<Rightarrow> real \<Rightarrow> real \<Rightarrow> real \<Rightarrow> real \<times> nat" where
  "scattering_force g c v delta I r delta_wavelength delta_magnetic =
     (let k_L_eff = 2 * pi / (wavelength * (1 + normal g c 0 delta_wavelength));
          s = I / I_s;
          delta_effective = delta * (1 + normal g (c + 1) 0 delta_magnetic);
          I_r = I * exp (- (r ^ 2) / beam_radius ^ 2)
      in (hbar * k_L_eff * I_r * Gamma
            / (2 * (1 + s + 4 * (delta_effective - k_L_eff * v) ^ 2 / Gamma ^ 2)),
          c + 2))"

section \<open>repumper\_effect\_on\_levels\<close>

text \<open>
  An elementwise operation on an array of size \<open>n\<close> and a second operand: the sizes
  agree, or the second operand has one element and is stretched. Every other combination
  ends in an error of the library (in the comparison of line 90, or in the masked
  assignment of line 91 when \<open>n = 1\<close>).
\<close>

definition broadcast :: "nat \<Rightarrow> 'a list \<Rightarrow> error + 'a list" where
  "broadcast n xs =
     (if length xs = n then Inr xs
      else if length xs = 1 then Inr (replicate n (hd xs))
      else Inl ShapeMismatch)"

text \<open>
  One normal draw for the wavenumber of the repumper (which is not used afterwards), then
  \<open>n\<close> uniform draws for the promotions and \<open>n\<close> for the leaks. Both masks are taken
  from the array passed in; the result is written to a copy, at a fresh address.
\<close>

definition repumper_effect_on_levels ::
  "(nat \<Rightarrow> real) \<Rightarrow> world \<Rightarrow> nat \<Rightarrow> nat \<Rightarrow> real \<Rightarrow> real \<Rightarrow> real \<Rightarrow> error + nat \<times> world" where
  "repumper_effect_on_levels g w lref vref I_repumper temperature delta_wavelength =
     (let lv = iarr w lref;
          vs = farr w vref;
          n = length lv;
          c = draws w;
          k_L_eff_repumper =
            2 * pi / (repumper_wavelength * (1 + normal g c 0 delta_wavelength));
          temp_safe = max temperature (1 / 10 ^ 12);
          transition_prob =
            map (\<lambda>v. repumper_effect * I_repumper / I_s
                       * exp (- (v ^ 2) / (2 * k * temp_safe / mass_Rb))) vs;
          level_transition_prob = lv;
          mask_F1 = map (\<lambda>l. l = 0) lv
      in case broadcast n transition_prob of
           Inl e \<Rightarrow> Inl e
         | Inr tp \<Rightarrow>
             (let transitions = map2 (\<lambda>u p. u < p) (rand_n g (c + 1) n) tp;
                  promoted =
                    map2 (\<lambda>m l. if m then 1 else l)
                      (map2 (\<lambda>a b. a \<and> b) mask_F1 transitions) level_transition_prob;
                  leak_prob = 1 / 10 ^ 21;
                  mask_F2_F3 = map (\<lambda>l. l = 1 \<or> l = 2) lv;
                  leaks = map (\<lambda>u. u < leak_prob) (rand_n g (c + 1 + n) n);
                  leaked =
                    map2 (\<lambda>m l. if m then 3 else l)
                      (map2 (\<lambda>a b. a \<and> b) mask_F2_F3 leaks) promoted;
                  a = next_addr w
              in Inr (a, w\<lparr>draws := c + 1 + n + n,
                             iarr := (iarr w)(a := leaked),
                             next_addr := a + 1\<rparr>)))"

section \<open>simulate\_mot\<close>

subsection \<open>Helpers of the numerical library\<close>

definition arange :: "real \<Rightarrow> real \<Rightarrow> real \<Rightarrow> error + real list" where
  "arange start stop step =
     (if step = 0 then Inl ZeroStep
      else Inr (map (\<lambda>i. start + real i * step) [0..<nat \<lceil>(stop - start) / step\<rceil>]))"

text \<open>
  The choice among the levels 0, 1, 2, 3 with weights 0.94, 0.05, 0.009, 0.001, for one
  uniform deviate: the index at which the deviate is inserted to the right in the
  cumulated weights.
\<close>

definition choice_level :: "real \<Rightarrow> int" where
  "choice_level u =
     (if u < 0.94 then 0 else if u < 0.99 then 1 else if u < 0.999 then 2 else 3)"

text \<open>
  The mean of the velocities of the atoms at level \<open>lev\<close> (nanmean over where), or
  not-a-number, modelled as \<open>None\<close>, when no atom is at that level.
\<close>

definition level_velocity :: "int \<Rightarrow> int list \<Rightarrow> real list \<Rightarrow> real option" where
  "level_velocity lev lv vs =
     (if lev \<in> set lv
      then Some (mean (map snd (filter (\<lambda>(l, v). l = lev) (zip lv vs))))
      else None)"

definition bincount :: "int list \<Rightarrow> nat \<Rightarrow> error + nat list" where
  "bincount xs minlength =
     (if filter (\<lambda>x. x < 0) xs = [] 
      then Inr (map (\<lambda>b. length (filter (\<lambda>x. x = int b) xs))
                  [0..<max minlength (nat (foldr (\<lambda>x m. max (x + 1) m) xs 0))])
      else Inl NegativeLevel)"

text \<open>
  Means along the first axis. A quotient 0/0 and a mean over a value that is not a number
  are not a number.
\<close>

definition mean_axis0 :: "real list list \<Rightarrow> real list" where
  "mean_axis0 xss =
     (case xss of
        [] \<Rightarrow> []
      | xs # _ \<Rightarrow> map (\<lambda>j. mean (map (\<lambda>ys. ys ! j) xss)) [0..<length xs])"

definition mean_opt :: "real option list \<Rightarrow> real option" where
  "mean_opt xs = (if None \<in> set xs then None else Some (mean (map the xs)))"

definition mean_axis0_vec :: "real option list list list \<Rightarrow> real option list list" where
  "mean_axis0_vec xsss =
     (case xsss of
        [] \<Rightarrow> []
      | r0 # _ \<Rightarrow>
          map (\<lambda>t. map (\<lambda>b. mean_opt (map (\<lambda>r. r ! t ! b) xsss)) [0..<length (r0 ! t)])
            [0..<length r0])"

subsection \<open>One time step\<close>

text \<open>
  The local variables of one run. The three array variables hold references; the two
  lists of snapshots hold the references that were appended.
\<close>

record locals =
  velocities :: nat
  positions :: nat
  levels :: nat
  T_avg_trapped :: real
  velocities_to_avg :: "nat list"
  positions_to_avg :: "nat list"
  temperatures :: "real list"
  velocity_distributions :: "real option list list"
  levels_distributions :: "real option list list"

fun forces_loop ::
  "(nat \<Rightarrow> real) \<Rightarrow> real \<Rightarrow> (real \<times> real) list \<Rightarrow> nat \<Rightarrow> real list \<times> nat" where
  "forces_loop g I [] c = ([], c)"
| "forces_loop g I ((v, pos) # rest) c =
     (case scattering_force g c v 0 I pos wavelength_fluctuation magnetic_fluctuation of
        (f, c1) \<Rightarrow> (case forces_loop g I rest c1 of (fs, c2) \<Rightarrow> (f # fs, c2)))"

text \<open>
  Lines 140 to 146: one normal draw for the laser power, the force on every atom (two
  draws each, in the order of the atoms), then the velocities and, from the new
  velocities, the positions; both arrays are changed in place, and each is read through
  its reference at the moment it is used.
\<close>

definition move_atoms :: "(nat \<Rightarrow> real) \<Rightarrow> real \<Rightarrow> world \<Rightarrow> nat \<Rightarrow> nat \<Rightarrow> world" where
  "move_atoms g dt w vref pref =
     (let P_laser_eff = P_laser * (1 + normal g (draws w) 0 power_fluctuation)
      in case forces_loop g (P_laser_eff / (pi * (beam_diameter / 2) ^ 2))
                (zip (farr w vref) (farr w pref)) (draws w + 1) of
           (forces, c1) \<Rightarrow>
             (let w1 = w\<lparr>draws := c1,
                           farr := (farr w)(vref :=
                             map2 (\<lambda>v f. v + f / mass_Rb * dt) (farr w vref) forces)\<rparr>
              in w1\<lparr>farr := (farr w1)(pref :=
                             map2 (\<lambda>p v. p + v * dt) (farr w1 pref) (farr w1 vref))\<rparr>))"

text \<open>
  Lines 181 to 189: the temperature of the atoms inside the beam, and 0 when there is
  none.
\<close>

definition trapped_temperature :: "real list \<Rightarrow> real list \<Rightarrow> real" where
  "trapped_temperature ps vs =
     (let trapped_atoms = map (\<lambda>p. \<bar>p\<bar> < beam_radius) ps;
          trapped_velocities = map snd (filter fst (zip trapped_atoms vs))
      in if length trapped_velocities > 0
         then mean (map (\<lambda>v. mass_Rb * v ^ 2) trapped_velocities) / k
         else 0)"

text \<open>
  Line 204: the counts divided by their sum; a quotient 0/0 is not a number.
\<close>

definition level_distribution :: "nat list \<Rightarrow> real option list" where
  "level_distribution level_counts =
     map (\<lambda>c. if sum_list level_counts = 0 then None
              else Some (real c / real (sum_list level_counts))) level_counts"

text \<open>
  The body of the time loop (lines 140 to 205; the progress report is left out). The
  three arrays are created with the same size and no statement changes a size; the first
  test stands for the shape errors of the library on arrays of different sizes and is
  never taken in a run.
\<close>

definition mot_step :: "(nat \<Rightarrow> real) \<Rightarrow> real \<Rightarrow> world \<times> locals \<Rightarrow> error + world \<times> locals" where
  "mot_step g dt wl =
     (case wl of (w, l) \<Rightarrow>
        if length (farr w (velocities l)) = length (farr w (positions l))
           \<and> length (iarr w (levels l)) = length (farr w (velocities l))
        then
          (let w2 = move_atoms g dt w (velocities l) (positions l);
               l1 = l\<lparr>velocities_to_avg := velocities_to_avg l @ [velocities l],
                      positions_to_avg := positions_to_avg l @ [positions l]\<rparr>;
               vs = farr w2 (velocities l);
               ps = farr w2 (positions l);
               lv = iarr w2 (levels l);
               avg_level_1_velocity = level_velocity 1 lv vs;
               avg_level_2_velocity = level_velocity 2 lv vs;
               avg_level_3_velocity = level_velocity 3 lv vs;
               avg_level_4_velocity = level_velocity 4 lv vs;
               l2 = l1\<lparr>velocity_distributions := velocity_distributions l1 @
                      [[avg_level_1_velocity, avg_level_2_velocity,
                        avg_level_3_velocity, avg_level_4_velocity]]\<rparr>;
               T = trapped_temperature ps vs;
               l3 = l2\<lparr>T_avg_trapped := T, temperatures := temperatures l2 @ [T]\<rparr>
           in case repumper_effect_on_levels g w2 (levels l3) (velocities l3)
                     repumper_intensity T wavelength_fluctuation of
                Inl e \<Rightarrow> Inl e
              | Inr (levels_1, w3) \<Rightarrow>
                  (case transition_between_levels g w3 levels_1 T dt of
                     (levels_2, w4) \<Rightarrow>
                       (case bincount (iarr w4 levels_2) 4 of
                          Inl e \<Rightarrow> Inl e
                        | Inr level_counts \<Rightarrow>
                            Inr (w4\<lparr>steps_done := steps_done w4 + 1\<rparr>,
                                 l3\<lparr>levels := levels_2,
                                    levels_distributions := levels_distributions l3 @
                                      [level_distribution level_counts]\<rparr>))))
        else Inl ShapeMismatch)"

fun steps_loop ::
  "(nat \<Rightarrow> real) \<Rightarrow> real \<Rightarrow> real list \<Rightarrow> world \<times> locals \<Rightarrow> error \<times> world + world \<times> locals" where
  "steps_loop g dt [] wl = Inr wl"
| "steps_loop g dt (t # ts) wl =
     (case mot_step g dt wl of
        Inl e \<Rightarrow> Inl (e, fst wl)
      | Inr wl' \<Rightarrow> steps_loop g dt ts wl')"

subsection \<open>One run\<close>

text \<open>
  The initial draws of a run (lines 125 to 133): \<open>n\<close> normal draws for the velocities,
  \<open>n\<close> uniform draws for the positions and \<open>n\<close> for the levels, each into a new array.
\<close>

definition run_init :: "(nat \<Rightarrow> real) \<Rightarrow> nat \<Rightarrow> world \<Rightarrow> world \<times> locals" where
  "run_init g n w =
     (let c = draws w;
          a = next_addr w;
          vel = map (\<lambda>i. normal g i 0 (sqrt (k * T0 / mass_Rb))) [c..<c + n];
          pos = map (\<lambda>u. - beam_radius + (beam_radius - (- beam_radius)) * u)
                  (rand_n g (c + n) n);
          lvl = map choice_level (rand_n g (c + n + n) n)
      in (w\<lparr>draws := c + n + n + n,
             farr := (farr w)(a := vel, a + 1 := pos),
             iarr := (iarr w)(a + 2 := lvl),
             next_addr := a + 3\<rparr>,
          \<lparr>velocities = a, positions = a + 1, levels = a + 2,
           T_avg_trapped = T0,
           velocities_to_avg = [], positions_to_avg = [], temperatures = [],
           velocity_distributions = [], levels_distributions = []\<rparr>))"

text \<open>
  The body of the loop over the runs (lines 124 to 205): the sequence of times, the
  initial draws (a negative number of atoms is refused by the first of them) and the time
  loop. The result is the sequence of times and the local variables with the recorded
  series of the run.
\<close>

definition run_once ::
  "(nat \<Rightarrow> real) \<Rightarrow> int \<Rightarrow> real \<Rightarrow> real \<Rightarrow> world \<Rightarrow> error \<times> world + real list \<times> world \<times> locals" where
  "run_once g n_atoms time_max dt w =
     (case arange 0 time_max dt of
        Inl e \<Rightarrow> Inl (e, w)
      | Inr ts \<Rightarrow>
          if n_atoms < 0 then Inl (NegativeDimensions, w)
          else
            (case steps_loop g dt ts (run_init g (nat n_atoms) w) of
               Inl e \<Rightarrow> Inl e
             | Inr (w2, l) \<Rightarrow> Inr (ts, w2, l)))"

subsection \<open>All runs and the averages\<close>

record accum =
  times_last :: "real list"
  positions_all :: "nat list list"
  velocities_all :: "nat list list"
  temperatures_all :: "real list list"
  velocity_distributions_all :: "real option list list list"
  level_populations_all :: "real option list list list"

fun runs_loop ::
  "(nat \<Rightarrow> real) \<Rightarrow> int \<Rightarrow> real \<Rightarrow> real \<Rightarrow> nat \<Rightarrow> world \<times> accum \<Rightarrow> error \<times> world + world \<times> accum" where
  "runs_loop g n_atoms time_max dt 0 wa = Inr wa"
| "runs_loop g n_atoms time_max dt (Suc m) wa =
     (case run_once g n_atoms time_max dt (fst wa) of
        Inl e \<Rightarrow> Inl e
      | Inr (ts, w', l) \<Rightarrow>
          runs_loop g n_atoms time_max dt m
            (w', (snd wa)\<lparr>times_last := ts,
                    velocities_all := velocities_all (snd wa) @ [velocities_to_avg l],
                    positions_all := positions_all (snd wa) @ [positions_to_avg l],
                    temperatures_all := temperatures_all (snd wa) @ [temperatures l],
                    level_populations_all := level_populations_all (snd wa) @ [levels_distributions l],
                    velocity_distributions_all :=
                      velocity_distributions_all (snd wa) @ [velocity_distributions l]\<rparr>))"

record mot_output =
  times_arr :: "real list"
  avg_positions :: "real list list"
  avg_velocities :: "real list list"
  avg_temperatures :: "real list"
  avg_level_populations :: "real option list list"
  avg_velocity_distributions :: "real option list list"

text \<open>
  After the runs, the snapshot lists are read through the references they hold, and the
  positions and velocities are averaged along axis 1, the other three series along axis 0
  (lines 230 to 234). With no run at all the first mean fails. With an empty sequence of
  times the means are empty or not a number and the report of line 237 fails on the last
  element of an empty array.
\<close>

definition simulate_mot ::
  "(nat \<Rightarrow> real) \<Rightarrow> int \<Rightarrow> real \<Rightarrow> real \<Rightarrow> int \<Rightarrow> world \<Rightarrow> error \<times> world + mot_output \<times> world" where
  "simulate_mot g n_atoms time_max dt n_simulations w =
     (case runs_loop g n_atoms time_max dt (nat n_simulations)
             (w, \<lparr>times_last = [], positions_all = [], velocities_all = [],
                  temperatures_all = [], velocity_distributions_all = [],
                  level_populations_all = []\<rparr>) of
        Inl e \<Rightarrow> Inl e
      | Inr (w', acc) \<Rightarrow>
          if positions_all acc = [] then Inl (NoRuns, w')
          else if mean_axis0 (temperatures_all acc) = [] then Inl (NoSteps, w')
          else Inr (\<lparr>times_arr = times_last acc,
                      avg_positions = map (\<lambda>run. mean_axis0 (map (farr w') run)) (positions_all acc),
                      avg_velocities = map (\<lambda>run. mean_axis0 (map (farr w') run)) (velocities_all acc),
                      avg_temperatures = mean_axis0 (temperatures_all acc),
                      avg_level_populations = mean_axis0_vec (level_populations_all acc),
                      avg_velocity_distributions = mean_axis0_vec (velocity_distributions_all acc)\<rparr>,
                    w'))"

section \<open>Example state\<close>

text \<open>
  A store with one float array \<open>[0]\<close> at address 0 (a velocity) and one integer array
  \<open>[0]\<close> at address 1 (a level).
\<close>

definition w_one :: world where
  "w_one = \<lparr>draws = 0, farr = (\<lambda>_. [])(0 := [0]), iarr = (\<lambda>_. [])(1 := [0]),
            next_addr = 2, steps_done = 0\<rparr>"

section \<open>Invariants\<close>

text \<open>
  Every level is one of 0, 1, 2, 3.
\<close>

definition levels_ok :: "int list \<Rightarrow> bool" where
  "levels_ok lv = (\<forall>x \<in> set lv. 0 \<le> x \<and> x \<le> 3)"

text \<open>
  The state of a run between two steps: velocities and positions are two different
  allocated arrays, and the three arrays have the size \<open>n\<close> with levels from 0 to 3.
\<close>

definition step_inv :: "nat \<Rightarrow> world \<times> locals \<Rightarrow> bool" where
  "step_inv n wl =
     (case wl of (w, l) \<Rightarrow>
        velocities l \<noteq> positions l
        \<and> velocities l < next_addr w \<and> positions l < next_addr w
        \<and> length (farr w (velocities l)) = n \<and> length (farr w (positions l)) = n
        \<and> length (iarr w (levels l)) = n \<and> levels_ok (iarr w (levels l)))"

text \<open>
  A recorded population vector: four components, and for at least one atom no component
  is not-a-number and the components sum to 1.
\<close>

definition population_ok :: "nat \<Rightarrow> real option list \<Rightarrow> bool" where
  "population_ok n d =
     (length d = 4 \<and> (0 < n \<longrightarrow> None \<notin> set d \<and> sum_list (map the d) = 1))"

text \<open>
  The recorded series of a run of \<open>m\<close> steps. The two snapshot lists hold \<open>m\<close> times the
  reference of the one array that the run has changed in place.
\<close>

definition run_shape :: "nat \<Rightarrow> nat \<Rightarrow> locals \<Rightarrow> bool" where
  "run_shape n m l =
     (velocities_to_avg l = replicate m (velocities l)
      \<and> positions_to_avg l = replicate m (positions l)
      \<and> length (temperatures l) = m
      \<and> length (velocity_distributions l) = m
      \<and> (\<forall>d \<in> set (velocity_distributions l). length d = 4)
      \<and> length (levels_distributions l) = m
      \<and> (\<forall>d \<in> set (levels_distributions l). population_ok n d))"

text \<open>
  The series collected from \<open>m\<close> runs of \<open>N\<close> steps each.
\<close>

definition accum_shape :: "nat \<Rightarrow> nat \<Rightarrow> nat \<Rightarrow> accum \<Rightarrow> bool" where
  "accum_shape n N m acc =
     (length (positions_all acc) = m \<and> (\<forall>x \<in> set (positions_all acc). length x = N)
      \<and> length (velocities_all acc) = m \<and> (\<forall>x \<in> set (velocities_all acc). length x = N)
      \<and> length (temperatures_all acc) = m \<and> (\<forall>x \<in> set (temperatures_all acc). length x = N)
      \<and> length (velocity_distributions_all acc) = m
      \<and> (\<forall>x \<in> set (velocity_distributions_all acc). length x = N \<and> (\<forall>d \<in> set x. length d = 4))
      \<and> length (level_populations_all acc) = m
      \<and> (\<forall>x \<in> set (level_populations_all acc). length x = N \<and> (\<forall>d \<in> set x. population_ok n d)))"

section \<open>Facts about the level models\<close>

lemma rand_n_length [simp]: "length (rand_n g c n) = n"
  by (simp add: rand_n_def)

lemma rand_n_nth [simp]: "i < n \<Longrightarrow> rand_n g c n ! i = g (c + i)"
  by (simp add: rand_n_def)

lemma repumper_masks:
  assumes "length vs = length lv"
  shows "map2 (\<lambda>m l. if m then 3 else l)
           (map2 (\<lambda>a b. a \<and> b) (map (\<lambda>l. l = 1 \<or> l = 2) lv)
              (map (\<lambda>u. u < q) (rand_n g c2 (length lv))))
           (map2 (\<lambda>m l. if m then 1 else l)
              (map2 (\<lambda>a b. a \<and> b) (map (\<lambda>l. l = 0) lv)
                 (map2 (\<lambda>u p. u < p) (rand_n g c1 (length lv)) (map f vs)))
              lv)
         = map (\<lambda>i. if (lv ! i = 1 \<or> lv ! i = 2) \<and> g (c2 + i) < q then 3
                    else if lv ! i = 0 \<and> g (c1 + i) < f (vs ! i) then 1
                    else lv ! i)
             [0..<length lv]"
  by (rule nth_equalityI) (use assms in auto)

lemma repumper_result:
  assumes "length (farr w vref) = length (iarr w lref)"
  shows "repumper_effect_on_levels g w lref vref Ir T dw =
     Inr (next_addr w,
          w\<lparr>draws := draws w + 1 + length (iarr w lref) + length (iarr w lref),
            iarr := (iarr w)(next_addr w :=
              map (\<lambda>i. if (iarr w lref ! i = 1 \<or> iarr w lref ! i = 2)
                           \<and> g (draws w + 1 + length (iarr w lref) + i) < 1 / 10 ^ 21 then 3
                        else if iarr w lref ! i = 0
                           \<and> g (draws w + 1 + i)
                               < repumper_effect * Ir / I_s
                                 * exp (- ((farr w vref ! i) ^ 2) / (2 * k * max T (1 / 10 ^ 12) / mass_Rb))
                        then 1 else iarr w lref ! i)
                [0..<length (iarr w lref)]),
            next_addr := next_addr w + 1\<rparr>)"
  unfolding repumper_effect_on_levels_def Let_def
  apply (subst broadcast_def)
  apply (simp only: length_map assms if_True sum.case simp_thms)
  apply (subst repumper_masks[OF assms])
  apply (rule refl)
  done



lemma pairs_loop_char:
  "i < length lv \<Longrightarrow>
   pairs_loop g T dt tbl i lv c =
     (lv[i := foldl (\<lambda>lev (((s, e), p), u).
                 if u < p * exp (- \<bar>real_of_int (s - e)\<bar> * T / k) * dt \<and> lev = s then e else lev)
               (lv ! i) (zip tbl (map g [c..<c + length tbl]))],
      c + length tbl)"
proof (induction tbl arbitrary: lv c)
  case Nil
  then show ?case by simp
next
  case (Cons x tbl)
  obtain s e p where x: "x = ((s, e), p)" by (metis prod.exhaust)
  have u: "[c..<Suc (c + length tbl)] = c # [Suc c..<Suc (c + length tbl)]"
    by (subst upt_rec) simp
  show ?case
    using Cons.prems by (simp add: x u Cons.IH Let_def del: upt_Suc)
qed

lemma atoms_loop_char:
  "n \<le> length lv \<Longrightarrow> j \<le> n \<Longrightarrow>
   atoms_loop g T dt [j..<n] lv c =
     (map (\<lambda>i. if j \<le> i \<and> i < n
                then foldl (\<lambda>lev (((s, e), p), u).
                       if u < p * exp (- \<bar>real_of_int (s - e)\<bar> * T / k) * dt \<and> lev = s then e else lev)
                     (lv ! i)
                     (zip transition_probabilities (map g [c + 6 * (i - j)..<c + 6 * (i - j) + 6]))
                else lv ! i) [0..<length lv],
      c + 6 * (n - j))"
proof (induction "n - j" arbitrary: j lv c)
  case 0
  then have "j = n" by simp
  then show ?case by (auto intro!: nth_equalityI)
next
  case (Suc d)
  then have jn: "j < n" and d: "d = n - Suc j" by auto
  have len6: "length transition_probabilities = 6"
    by (simp add: transition_probabilities_def)
  have u: "[j..<n] = j # [Suc j..<n]" using jn by (simp add: upt_conv_Cons)
  have jl: "j < length lv" using jn Suc.prems by simp
  define F where "F = (\<lambda>lev (((s, e), p), u).
                 if u < p * exp (- \<bar>real_of_int (s - e)\<bar> * T / k) * dt \<and> lev = s then e else (lev::int))"
  define lv1 where "lv1 = lv[j := foldl F (lv ! j) (zip transition_probabilities (map g [c..<c + 6]))]"
  have len1: "length lv1 = length lv" by (simp add: lv1_def)
  have step: "atoms_loop g T dt [j..<n] lv c = atoms_loop g T dt [Suc j..<n] lv1 (c + 6)"
    by (simp only: u atoms_loop.simps pairs_loop_char[OF jl] len6 prod.case lv1_def F_def)
  have ih: "atoms_loop g T dt [Suc j..<n] lv1 (c + 6) =
     (map (\<lambda>i. if Suc j \<le> i \<and> i < n
                then foldl F (lv1 ! i)
                     (zip transition_probabilities (map g [c + 6 + 6 * (i - Suc j)..<c + 6 + 6 * (i - Suc j) + 6]))
                else lv1 ! i) [0..<length lv1],
      c + 6 + 6 * (n - Suc j))"
    unfolding F_def
    by (rule Suc.hyps(1)[OF d]) (use Suc.prems jn len1 in simp_all)
  have c': "c + 6 + 6 * (n - Suc j) = c + 6 * (n - j)" using jn by simp
  have arr: "map (\<lambda>i. if Suc j \<le> i \<and> i < n
                then foldl F (lv1 ! i)
                     (zip transition_probabilities (map g [c + 6 + 6 * (i - Suc j)..<c + 6 + 6 * (i - Suc j) + 6]))
                else lv1 ! i) [0..<length lv1]
       = map (\<lambda>i. if j \<le> i \<and> i < n
                then foldl F (lv ! i)
                     (zip transition_probabilities (map g [c + 6 * (i - j)..<c + 6 * (i - j) + 6]))
                else lv ! i) [0..<length lv]"
  proof (rule nth_equalityI)
    show "length (map (\<lambda>i. if Suc j \<le> i \<and> i < n
                then foldl F (lv1 ! i)
                     (zip transition_probabilities (map g [c + 6 + 6 * (i - Suc j)..<c + 6 + 6 * (i - Suc j) + 6]))
                else lv1 ! i) [0..<length lv1])
       = length (map (\<lambda>i. if j \<le> i \<and> i < n
                then foldl F (lv ! i)
                     (zip transition_probabilities (map g [c + 6 * (i - j)..<c + 6 * (i - j) + 6]))
                else lv ! i) [0..<length lv])"
      by (simp add: len1)
  next
    fix i
    assume "i < length (map (\<lambda>i. if Suc j \<le> i \<and> i < n
                then foldl F (lv1 ! i)
                     (zip transition_probabilities (map g [c + 6 + 6 * (i - Suc j)..<c + 6 + 6 * (i - Suc j) + 6]))
                else lv1 ! i) [0..<length lv1])"
    then have il: "i < length lv" by (simp add: len1)
    consider "i < j" | "i = j" | "Suc j \<le> i" by linarith
    then show "map (\<lambda>i. if Suc j \<le> i \<and> i < n
                then foldl F (lv1 ! i)
                     (zip transition_probabilities (map g [c + 6 + 6 * (i - Suc j)..<c + 6 + 6 * (i - Suc j) + 6]))
                else lv1 ! i) [0..<length lv1] ! i
       = map (\<lambda>i. if j \<le> i \<and> i < n
                then foldl F (lv ! i)
                     (zip transition_probabilities (map g [c + 6 * (i - j)..<c + 6 * (i - j) + 6]))
                else lv ! i) [0..<length lv] ! i"
    proof cases
      case 1
      then show ?thesis using il by (simp add: len1 lv1_def)
    next
      case 2
      then show ?thesis using il jn by (simp add: len1 lv1_def)
    next
      case 3
      then have e: "6 * (i - j) = 6 + 6 * (i - Suc j)" by simp
      have ne: "lv1 ! i = lv ! i" using 3 by (simp add: lv1_def)
      show ?thesis using il 3 by (simp add: len1 e ne add.assoc)
    qed
  qed
  show ?case
    unfolding step ih c' arr by (simp add: F_def)
qed

lemma transition_result:
  "transition_between_levels g w lref T dt =
     (lref,
      w\<lparr>draws := draws w + 6 * length (iarr w lref),
        iarr := (iarr w)(lref :=
          map (\<lambda>i. foldl (\<lambda>lev (((s, e), p), u).
                       if u < p * exp (- \<bar>real_of_int (s - e)\<bar> * T / k) * dt \<and> lev = s then e else lev)
                     (iarr w lref ! i)
                     (zip transition_probabilities (map g [draws w + 6 * i..<draws w + 6 * i + 6])))
            [0..<length (iarr w lref)])\<rparr>)"
proof -
  have "atoms_loop g T dt [0..<length (iarr w lref)] (iarr w lref) (draws w) =
     (map (\<lambda>i. foldl (\<lambda>lev (((s, e), p), u).
                       if u < p * exp (- \<bar>real_of_int (s - e)\<bar> * T / k) * dt \<and> lev = s then e else lev)
                     (iarr w lref ! i)
                     (zip transition_probabilities (map g [draws w + 6 * i..<draws w + 6 * i + 6])))
            [0..<length (iarr w lref)], draws w + 6 * length (iarr w lref))"
    by (subst atoms_loop_char) (auto intro!: nth_equalityI)
  then show ?thesis
    by (simp only: transition_between_levels_def prod.case)
qed

section \<open>Facts about the time step, the runs and the averages\<close>

lemma scattering_force_snd: "snd (scattering_force g c v d I r dw dm) = c + 2"
  by (simp add: scattering_force_def Let_def)

lemma scattering_force_counter:
  "scattering_force g c v d I r dw dm = (f, c1) \<Longrightarrow> c1 = c + 2"
  using scattering_force_snd[of g c v d I r dw dm] by simp

lemma forces_loop_shape:
  "forces_loop g I zs c = (fs, c') \<Longrightarrow> length fs = length zs \<and> c' = c + 2 * length zs"
proof (induction zs arbitrary: c fs c')
  case Nil
  then show ?case by simp
next
  case (Cons z zs)
  obtain v pos where z: "z = (v, pos)" by (cases z)
  obtain f c1 where sf: "scattering_force g c v 0 I pos wavelength_fluctuation magnetic_fluctuation = (f, c1)"
    by (cases "scattering_force g c v 0 I pos wavelength_fluctuation magnetic_fluctuation")
  have c1: "c1 = c + 2" using sf by (rule scattering_force_counter)
  obtain fs1 c2 where fl: "forces_loop g I zs c1 = (fs1, c2)" by (cases "forces_loop g I zs c1")
  from Cons.IH[OF fl] have ih: "length fs1 = length zs" "c2 = c1 + 2 * length zs" by simp_all
  from Cons.prems have "fs = f # fs1" "c' = c2"
    by (simp_all only: z forces_loop.simps sf fl prod.case prod.inject)
  then show ?case using ih c1 by simp
qed

lemma move_atoms_frame:
  "iarr (move_atoms g dt w vref pref) = iarr w"
  "next_addr (move_atoms g dt w vref pref) = next_addr w"
  "steps_done (move_atoms g dt w vref pref) = steps_done w"
  by (simp_all add: move_atoms_def Let_def split: prod.splits)

lemma move_atoms_other:
  "x \<noteq> vref \<Longrightarrow> x \<noteq> pref \<Longrightarrow> farr (move_atoms g dt w vref pref) x = farr w x"
  by (simp add: move_atoms_def Let_def split: prod.splits)

lemma move_atoms_lengths:
  assumes "vref \<noteq> pref" "length (farr w vref) = n" "length (farr w pref) = n"
  shows "length (farr (move_atoms g dt w vref pref) vref) = n"
    and "length (farr (move_atoms g dt w vref pref) pref) = n"
    and "draws (move_atoms g dt w vref pref) = draws w + 1 + 2 * n"
  using assms
  by (auto simp add: move_atoms_def Let_def split: prod.splits dest!: forces_loop_shape)

lemma scan_levels_ok:
  "0 \<le> lev \<and> lev \<le> 3 \<Longrightarrow> \<forall>x \<in> set tbl. 0 \<le> snd (fst x) \<and> snd (fst x) \<le> 3 \<Longrightarrow>
   0 \<le> foldl (\<lambda>lev (((s, e), p), u).
            if u < p * exp (- \<bar>real_of_int (s - e)\<bar> * T / k) * dt \<and> lev = s then e else lev)
     lev (zip tbl us)
   \<and> foldl (\<lambda>lev (((s, e), p), u).
            if u < p * exp (- \<bar>real_of_int (s - e)\<bar> * T / k) * dt \<and> lev = s then e else lev)
     lev (zip tbl us) \<le> (3::int)"
proof (induction tbl arbitrary: lev us)
  case Nil
  then show ?case by simp
next
  case (Cons x tbl)
  obtain s e p where x: "x = ((s, e), p)" by (metis prod.exhaust)
  show ?case
  proof (cases us)
    case Nil
    then show ?thesis using Cons.prems by simp
  next
    case (Cons u us')
    have e: "0 \<le> e \<and> e \<le> 3" using Cons.prems(2) x by simp
    have t: "\<forall>x \<in> set tbl. 0 \<le> snd (fst x) \<and> snd (fst x) \<le> 3" using Cons.prems(2) by simp
    have n: "0 \<le> (if u < p * exp (- \<bar>real_of_int (s - e)\<bar> * T / k) * dt \<and> lev = s then e else lev)
           \<and> (if u < p * exp (- \<bar>real_of_int (s - e)\<bar> * T / k) * dt \<and> lev = s then e else lev) \<le> 3"
      using e Cons.prems(1) by simp
    show ?thesis
      unfolding Cons x
      apply (simp only: zip_Cons_Cons foldl_Cons prod.case)
      apply (rule Cons.IH[OF n t])
      done
  qed
qed

lemma bincount_levels:
  assumes "levels_ok lv"
  shows "bincount lv 4 = Inr (map (\<lambda>b. length (filter (\<lambda>x. x = int b) lv)) [0..<4])"
proof -
  have neg: "filter (\<lambda>x. x < 0) lv = []"
    using assms by (auto simp: levels_ok_def filter_empty_conv)
  have mx: "foldr (\<lambda>x m. max (x + 1) m) lv 0 \<le> 4"
    using assms by (induction lv) (auto simp: levels_ok_def)
  then have "nat (foldr (\<lambda>x m. max (x + 1) m) lv 0) \<le> 4" by linarith
  then have "max 4 (nat (foldr (\<lambda>x m. max (x + 1) m) lv 0)) = 4" by (simp add: max_def)
  then show ?thesis by (simp add: bincount_def neg)
qed

lemma count_levels_sum:
  assumes "levels_ok lv"
  shows "sum_list (map (\<lambda>b. length (filter (\<lambda>x. x = int b) lv)) [0..<4]) = length lv"
proof -
  have u: "[0..<4] = [0, 1, 2, 3]" by (simp add: upt_rec)
  show ?thesis
    using assms unfolding u
  proof (induction lv)
    case Nil
    then show ?case by simp
  next
    case (Cons x lv)
    then have "x = 0 \<or> x = 1 \<or> x = 2 \<or> x = 3" by (auto simp: levels_ok_def)
    moreover have "levels_ok lv" using Cons.prems by (simp add: levels_ok_def)
    ultimately show ?case using Cons.IH by auto
  qed
qed

lemma levels_ok_map:
  "(\<And>i. i < n \<Longrightarrow> 0 \<le> f i \<and> f i \<le> 3) \<Longrightarrow> levels_ok (map f [0..<n])"
  by (auto simp: levels_ok_def)

lemma levels_ok_nth: "levels_ok lv \<Longrightarrow> i < length lv \<Longrightarrow> 0 \<le> lv ! i \<and> lv ! i \<le> 3"
  by (simp add: levels_ok_def)

lemma repumper_ok:
  assumes "length (farr w vref) = length (iarr w lref)" "levels_ok (iarr w lref)"
  shows "\<exists>R. repumper_effect_on_levels g w lref vref Ir T dw =
               Inr (next_addr w,
                    w\<lparr>draws := draws w + 1 + length (iarr w lref) + length (iarr w lref),
                      iarr := (iarr w)(next_addr w := R),
                      next_addr := next_addr w + 1\<rparr>)
             \<and> length R = length (iarr w lref) \<and> levels_ok R"
proof -
  have ok: "levels_ok (map (\<lambda>i. if (iarr w lref ! i = 1 \<or> iarr w lref ! i = 2)
                           \<and> g (draws w + 1 + length (iarr w lref) + i) < 1 / 10 ^ 21 then 3
                        else if iarr w lref ! i = 0
                           \<and> g (draws w + 1 + i)
                               < repumper_effect * Ir / I_s
                                 * exp (- ((farr w vref ! i) ^ 2) / (2 * k * max T (1 / 10 ^ 12) / mass_Rb))
                        then 1 else iarr w lref ! i)
                [0..<length (iarr w lref)])"
  proof (rule levels_ok_map)
    fix i assume "i < length (iarr w lref)"
    from levels_ok_nth[OF assms(2) this]
    show "0 \<le> (if (iarr w lref ! i = 1 \<or> iarr w lref ! i = 2)
                           \<and> g (draws w + 1 + length (iarr w lref) + i) < 1 / 10 ^ 21 then 3
                        else if iarr w lref ! i = 0
                           \<and> g (draws w + 1 + i)
                               < repumper_effect * Ir / I_s
                                 * exp (- ((farr w vref ! i) ^ 2) / (2 * k * max T (1 / 10 ^ 12) / mass_Rb))
                        then 1 else iarr w lref ! i)
        \<and> (if (iarr w lref ! i = 1 \<or> iarr w lref ! i = 2)
                           \<and> g (draws w + 1 + length (iarr w lref) + i) < 1 / 10 ^ 21 then 3
                        else if iarr w lref ! i = 0
                           \<and> g (draws w + 1 + i)
                               < repumper_effect * Ir / I_s
                                 * exp (- ((farr w vref ! i) ^ 2) / (2 * k * max T (1 / 10 ^ 12) / mass_Rb))
                        then 1 else iarr w lref ! i) \<le> 3"
      by simp
  qed
  show ?thesis
    unfolding repumper_result[OF assms(1)]
    apply (intro exI conjI)
      apply (rule refl)
     apply simp
    apply (rule ok)
    done
qed

lemma table_ends: "\<forall>x \<in> set transition_probabilities. 0 \<le> snd (fst x) \<and> snd (fst x) \<le> 3"
  by (simp add: transition_probabilities_def)

lemma transition_ok:
  assumes "levels_ok (iarr w lref)"
  shows "\<exists>S. transition_between_levels g w lref T dt =
               (lref, w\<lparr>draws := draws w + 6 * length (iarr w lref),
                        iarr := (iarr w)(lref := S)\<rparr>)
             \<and> length S = length (iarr w lref) \<and> levels_ok S"
proof -
  have ok: "levels_ok (map (\<lambda>i. foldl (\<lambda>lev (((s, e), p), u).
                       if u < p * exp (- \<bar>real_of_int (s - e)\<bar> * T / k) * dt \<and> lev = s then e else lev)
                     (iarr w lref ! i)
                     (zip transition_probabilities (map g [draws w + 6 * i..<draws w + 6 * i + 6])))
            [0..<length (iarr w lref)])"
  proof (rule levels_ok_map)
    fix i assume "i < length (iarr w lref)"
    from scan_levels_ok[OF levels_ok_nth[OF assms this] table_ends]
    show "0 \<le> foldl (\<lambda>lev (((s, e), p), u).
                       if u < p * exp (- \<bar>real_of_int (s - e)\<bar> * T / k) * dt \<and> lev = s then e else lev)
                     (iarr w lref ! i)
                     (zip transition_probabilities (map g [draws w + 6 * i..<draws w + 6 * i + 6]))
       \<and> foldl (\<lambda>lev (((s, e), p), u).
                       if u < p * exp (- \<bar>real_of_int (s - e)\<bar> * T / k) * dt \<and> lev = s then e else lev)
                     (iarr w lref ! i)
                     (zip transition_probabilities (map g [draws w + 6 * i..<draws w + 6 * i + 6])) \<le> 3"
      .
  qed
  show ?thesis
    unfolding transition_result
    apply (intro exI conjI)
      apply (rule refl)
     apply simp
    apply (rule ok)
    done
qed

lemma mot_step_ok:
  assumes "step_inv n (w, l)"
  shows "\<exists>w' l'. mot_step g dt (w, l) = Inr (w', l') \<and> step_inv n (w', l')
           \<and> velocities l' = velocities l \<and> positions l' = positions l
           \<and> levels l' = next_addr w \<and> next_addr w' = next_addr w + 1
           \<and> steps_done w' = steps_done w + 1
           \<and> farr w' = farr (move_atoms g dt w (velocities l) (positions l))
           \<and> velocities_to_avg l' = velocities_to_avg l @ [velocities l]
           \<and> positions_to_avg l' = positions_to_avg l @ [positions l]
           \<and> temperatures l' = temperatures l @
                [trapped_temperature (farr w' (positions l)) (farr w' (velocities l))]
           \<and> velocity_distributions l' = velocity_distributions l @
                [[level_velocity 1 (iarr w (levels l)) (farr w' (velocities l)),
                  level_velocity 2 (iarr w (levels l)) (farr w' (velocities l)),
                  level_velocity 3 (iarr w (levels l)) (farr w' (velocities l)),
                  level_velocity 4 (iarr w (levels l)) (farr w' (velocities l))]]
           \<and> levels_distributions l' = levels_distributions l @
                [level_distribution
                   (map (\<lambda>b. length (filter (\<lambda>x. x = int b) (iarr w' (levels l')))) [0..<4])]"
proof -
  define va pa la where "va = velocities l" and "pa = positions l" and "la = levels l"
  from assms have inv: "va \<noteq> pa" "va < next_addr w" "pa < next_addr w"
    "length (farr w va) = n" "length (farr w pa) = n" "length (iarr w la) = n"
    "levels_ok (iarr w la)"
    by (simp_all add: step_inv_def va_def pa_def la_def)
  define w2 where "w2 = move_atoms g dt w va pa"
  have w2: "iarr w2 = iarr w" "next_addr w2 = next_addr w" "steps_done w2 = steps_done w"
    "length (farr w2 va) = n" "length (farr w2 pa) = n"
    unfolding w2_def
    using move_atoms_frame[of g dt w va pa] move_atoms_lengths[OF inv(1) inv(4) inv(5), of g dt]
    by simp_all
  define T where "T = trapped_temperature (farr w2 pa) (farr w2 va)"
  have pre: "length (farr w2 va) = length (iarr w2 la)" "levels_ok (iarr w2 la)"
    using w2 inv by simp_all
  from repumper_ok[OF pre, of g repumper_intensity T wavelength_fluctuation]
  obtain R where rep: "repumper_effect_on_levels g w2 la va repumper_intensity T wavelength_fluctuation =
               Inr (next_addr w2,
                    w2\<lparr>draws := draws w2 + 1 + length (iarr w2 la) + length (iarr w2 la),
                      iarr := (iarr w2)(next_addr w2 := R),
                      next_addr := next_addr w2 + 1\<rparr>)"
    and R: "length R = length (iarr w2 la)" "levels_ok R"
    by blast
  define w3 where "w3 = w2\<lparr>draws := draws w2 + 1 + length (iarr w2 la) + length (iarr w2 la),
                      iarr := (iarr w2)(next_addr w2 := R),
                      next_addr := next_addr w2 + 1\<rparr>"
  have w3: "iarr w3 (next_addr w2) = R" "farr w3 = farr w2" "next_addr w3 = next_addr w + 1"
    "steps_done w3 = steps_done w"
    by (simp_all add: w3_def w2)
  have pre3: "levels_ok (iarr w3 (next_addr w2))" using w3 R by simp
  from transition_ok[OF pre3, of g T dt]
  obtain S where tr: "transition_between_levels g w3 (next_addr w2) T dt =
               (next_addr w2, w3\<lparr>draws := draws w3 + 6 * length (iarr w3 (next_addr w2)),
                        iarr := (iarr w3)(next_addr w2 := S)\<rparr>)"
    and S: "length S = length (iarr w3 (next_addr w2))" "levels_ok S"
    by blast
  define w4 where "w4 = w3\<lparr>draws := draws w3 + 6 * length (iarr w3 (next_addr w2)),
                        iarr := (iarr w3)(next_addr w2 := S)\<rparr>"
  have w4: "iarr w4 (next_addr w) = S" "farr w4 = farr w2" "next_addr w4 = next_addr w + 1"
    "steps_done w4 = steps_done w"
    by (simp_all add: w4_def w3 w2)
  have bc: "bincount (iarr w4 (next_addr w2)) 4 =
      Inr (map (\<lambda>b. length (filter (\<lambda>x. x = int b) S)) [0..<4])"
    using bincount_levels[OF S(2)] w4 w2 by simp
  have guard: "length (farr w (velocities l)) = length (farr w (positions l))
           \<and> length (iarr w (levels l)) = length (farr w (velocities l))"
    using inv by (simp add: va_def pa_def la_def)
  have rep': "repumper_effect_on_levels g (move_atoms g dt w (velocities l) (positions l))
        (levels l) (velocities l) repumper_intensity
        (trapped_temperature (farr (move_atoms g dt w (velocities l) (positions l)) (positions l))
           (farr (move_atoms g dt w (velocities l) (positions l)) (velocities l)))
        wavelength_fluctuation = Inr (next_addr w, w3)"
    using rep unfolding w3_def[symmetric] unfolding w2 unfolding w2_def T_def va_def pa_def la_def .
  have tr': "transition_between_levels g w3 (next_addr w)
        (trapped_temperature (farr (move_atoms g dt w (velocities l) (positions l)) (positions l))
           (farr (move_atoms g dt w (velocities l) (positions l)) (velocities l))) dt
        = (next_addr w, w4)"
    using tr unfolding w4_def[symmetric] unfolding w2 unfolding w2_def T_def va_def pa_def la_def .
  have bc': "bincount (iarr w4 (next_addr w)) 4 =
      Inr (map (\<lambda>b. length (filter (\<lambda>x. x = int b) S)) [0..<4])"
    using bc unfolding w2 .
  have step: "mot_step g dt (w, l) =
     Inr (w4\<lparr>steps_done := steps_done w4 + 1\<rparr>,
          l\<lparr>velocities_to_avg := velocities_to_avg l @ [va],
            positions_to_avg := positions_to_avg l @ [pa],
            velocity_distributions := velocity_distributions l @
              [[level_velocity 1 (iarr w2 la) (farr w2 va), level_velocity 2 (iarr w2 la) (farr w2 va),
                level_velocity 3 (iarr w2 la) (farr w2 va), level_velocity 4 (iarr w2 la) (farr w2 va)]],
            T_avg_trapped := T,
            temperatures := temperatures l @ [T],
            levels := next_addr w2,
            levels_distributions := levels_distributions l @
              [level_distribution (map (\<lambda>b. length (filter (\<lambda>x. x = int b) S)) [0..<4])]\<rparr>)"
    using guard
    by (simp add: mot_step_def Let_def rep' tr' bc' move_atoms_frame T_def w2_def va_def pa_def la_def
          del: upt_Suc)
  show ?thesis
    unfolding step
    apply (intro exI conjI)
                apply (rule refl)
    using inv w2 w4 S R w3
    by (simp_all add: step_inv_def va_def pa_def la_def T_def w2_def)
qed

lemma sum_list_divide: "sum_list (map (\<lambda>c. real c / m) cs) = real (sum_list cs) / m"
  by (induction cs) (simp_all add: add_divide_distrib)

lemma level_distribution_ok:
  assumes "length counts = 4" "sum_list counts = n"
  shows "population_ok n (level_distribution counts)"
proof -
  have "0 < n \<Longrightarrow> map the (level_distribution counts) = map (\<lambda>c. real c / real n) counts"
    using assms by (simp add: level_distribution_def comp_def)
  then have "0 < n \<Longrightarrow> sum_list (map the (level_distribution counts)) = 1"
    using assms by (simp add: sum_list_divide)
  moreover have "0 < n \<Longrightarrow> None \<notin> set (level_distribution counts)"
    using assms by (auto simp: level_distribution_def)
  moreover have "length (level_distribution counts) = 4"
    using assms by (simp add: level_distribution_def)
  ultimately show ?thesis by (simp add: population_ok_def)
qed

lemma steps_loop_append:
  "steps_loop g dt (ts1 @ ts2) wl =
     (case steps_loop g dt ts1 wl of Inl e \<Rightarrow> Inl e | Inr wl' \<Rightarrow> steps_loop g dt ts2 wl')"
  by (induction ts1 arbitrary: wl) (simp_all split: sum.splits)

lemma steps_loop_ok:
  assumes "step_inv n (w, l)"
  shows "\<exists>w' l'. steps_loop g dt ts (w, l) = Inr (w', l') \<and> step_inv n (w', l')
           \<and> velocities l' = velocities l \<and> positions l' = positions l
           \<and> steps_done w' = steps_done w + length ts
           \<and> velocities_to_avg l' = velocities_to_avg l @ replicate (length ts) (velocities l)
           \<and> positions_to_avg l' = positions_to_avg l @ replicate (length ts) (positions l)
           \<and> (\<exists>ext. temperatures l' = temperatures l @ ext \<and> length ext = length ts)
           \<and> (\<exists>ext. velocity_distributions l' = velocity_distributions l @ ext
                    \<and> length ext = length ts \<and> (\<forall>d \<in> set ext. length d = 4))
           \<and> (\<exists>ext. levels_distributions l' = levels_distributions l @ ext
                    \<and> length ext = length ts \<and> (\<forall>d \<in> set ext. population_ok n d))"
  using assms
proof (induction ts arbitrary: w l)
  case Nil
  then show ?case by simp
next
  case (Cons t ts)
  from mot_step_ok[OF Cons.prems, of g dt]
  obtain w1 l1 where st: "mot_step g dt (w, l) = Inr (w1, l1)" and inv1: "step_inv n (w1, l1)"
    and same: "velocities l1 = velocities l" "positions l1 = positions l"
    and sd: "steps_done w1 = steps_done w + 1"
    and rec: "velocities_to_avg l1 = velocities_to_avg l @ [velocities l]"
      "positions_to_avg l1 = positions_to_avg l @ [positions l]"
    and tmp: "temperatures l1 = temperatures l @
                [trapped_temperature (farr w1 (positions l)) (farr w1 (velocities l))]"
    and vd: "velocity_distributions l1 = velocity_distributions l @
                [[level_velocity 1 (iarr w (levels l)) (farr w1 (velocities l)),
                  level_velocity 2 (iarr w (levels l)) (farr w1 (velocities l)),
                  level_velocity 3 (iarr w (levels l)) (farr w1 (velocities l)),
                  level_velocity 4 (iarr w (levels l)) (farr w1 (velocities l))]]"
    and ld: "levels_distributions l1 = levels_distributions l @
                [level_distribution
                   (map (\<lambda>b. length (filter (\<lambda>x. x = int b) (iarr w1 (levels l1)))) [0..<4])]"
    by blast
  have lo: "levels_ok (iarr w1 (levels l1))" and ln: "length (iarr w1 (levels l1)) = n"
    using inv1 by (simp_all add: step_inv_def)
  have pop: "population_ok n (level_distribution
                   (map (\<lambda>b. length (filter (\<lambda>x. x = int b) (iarr w1 (levels l1)))) [0..<4]))"
    by (rule level_distribution_ok) (simp_all add: count_levels_sum[OF lo] ln del: upt_Suc)
  from Cons.IH[OF inv1]
  obtain w' l' where lp: "steps_loop g dt ts (w1, l1) = Inr (w', l')" and inv': "step_inv n (w', l')"
    and same': "velocities l' = velocities l1" "positions l' = positions l1"
    and sd': "steps_done w' = steps_done w1 + length ts"
    and rec': "velocities_to_avg l' = velocities_to_avg l1 @ replicate (length ts) (velocities l1)"
      "positions_to_avg l' = positions_to_avg l1 @ replicate (length ts) (positions l1)"
    and tmp': "\<exists>ext. temperatures l' = temperatures l1 @ ext \<and> length ext = length ts"
    and vd': "\<exists>ext. velocity_distributions l' = velocity_distributions l1 @ ext
                    \<and> length ext = length ts \<and> (\<forall>d \<in> set ext. length d = 4)"
    and ld': "\<exists>ext. levels_distributions l' = levels_distributions l1 @ ext
                    \<and> length ext = length ts \<and> (\<forall>d \<in> set ext. population_ok n d)"
    by blast
  from tmp' obtain e1 where e1: "temperatures l' = temperatures l1 @ e1" "length e1 = length ts" by blast
  from vd' obtain e2 where e2: "velocity_distributions l' = velocity_distributions l1 @ e2"
    "length e2 = length ts" "\<forall>d \<in> set e2. length d = 4" by blast
  from ld' obtain e3 where e3: "levels_distributions l' = levels_distributions l1 @ e3"
    "length e3 = length ts" "\<forall>d \<in> set e3. population_ok n d" by blast
  have t1: "\<exists>ext. temperatures l' = temperatures l @ ext \<and> length ext = length (t # ts)"
    using e1 tmp by simp
  have t2: "\<exists>ext. velocity_distributions l' = velocity_distributions l @ ext
                    \<and> length ext = length (t # ts) \<and> (\<forall>d \<in> set ext. length d = 4)"
    apply (rule exI[of _ "[level_velocity 1 (iarr w (levels l)) (farr w1 (velocities l)),
                  level_velocity 2 (iarr w (levels l)) (farr w1 (velocities l)),
                  level_velocity 3 (iarr w (levels l)) (farr w1 (velocities l)),
                  level_velocity 4 (iarr w (levels l)) (farr w1 (velocities l))] # e2"])
    using e2 vd by simp
  have t3: "\<exists>ext. levels_distributions l' = levels_distributions l @ ext
                    \<and> length ext = length (t # ts) \<and> (\<forall>d \<in> set ext. population_ok n d)"
    apply (rule exI[of _ "level_distribution
                   (map (\<lambda>b. length (filter (\<lambda>x. x = int b) (iarr w1 (levels l1)))) [0..<4]) # e3"])
    using e3 ld pop by simp
  have r1: "velocities_to_avg l' = velocities_to_avg l @ replicate (length (t # ts)) (velocities l)"
    using rec' rec same by (simp add: replicate_app_Cons_same)
  have r2: "positions_to_avg l' = positions_to_avg l @ replicate (length (t # ts)) (positions l)"
    using rec' rec same by (simp add: replicate_app_Cons_same)
  have run: "steps_loop g dt (t # ts) (w, l) = Inr (w', l')"
    by (simp add: st lp)
  have sd2: "steps_done w' = steps_done w + length (t # ts)"
    using sd sd' by simp
  have s2: "velocities l' = velocities l" "positions l' = positions l"
    using same same' by simp_all
  from run inv' s2 sd2 r1 r2 t1 t2 t3 show ?case by blast
qed

lemma choice_level_range: "0 \<le> choice_level u \<and> choice_level u \<le> 3"
  by (simp add: choice_level_def)

lemma run_init_inv: "step_inv n (run_init g n w)"
  by (simp add: run_init_def step_inv_def Let_def levels_ok_def choice_level_range)

lemma run_init_fields:
  "steps_done (fst (run_init g n w)) = steps_done w"
  "velocities (snd (run_init g n w)) = next_addr w"
  "positions (snd (run_init g n w)) = next_addr w + 1"
  "velocities_to_avg (snd (run_init g n w)) = []"
  "positions_to_avg (snd (run_init g n w)) = []"
  "temperatures (snd (run_init g n w)) = []"
  "velocity_distributions (snd (run_init g n w)) = []"
  "levels_distributions (snd (run_init g n w)) = []"
  by (simp_all add: run_init_def Let_def)

lemma run_once_ok:
  assumes "0 \<le> n_atoms" "dt \<noteq> 0"
  shows "\<exists>w' l. run_once g n_atoms time_max dt w =
                  Inr (map (\<lambda>i. real i * dt) [0..<nat \<lceil>time_max / dt\<rceil>], w', l)
           \<and> step_inv (nat n_atoms) (w', l)
           \<and> steps_done w' = steps_done w + nat \<lceil>time_max / dt\<rceil>
           \<and> run_shape (nat n_atoms) (nat \<lceil>time_max / dt\<rceil>) l"
proof -
  define ts where "ts = map (\<lambda>i. real i * dt) [0..<nat \<lceil>time_max / dt\<rceil>]"
  have ar: "arange 0 time_max dt = Inr ts"
    using assms(2) by (simp add: arange_def ts_def)
  have len: "length ts = nat \<lceil>time_max / dt\<rceil>" by (simp add: ts_def)
  obtain w1 l0 where ri: "run_init g (nat n_atoms) w = (w1, l0)" by (metis prod.exhaust)
  have inv0: "step_inv (nat n_atoms) (w1, l0)" using run_init_inv[of "nat n_atoms" g w] ri by simp
  have f0: "steps_done w1 = steps_done w" "velocities_to_avg l0 = []" "positions_to_avg l0 = []"
    "temperatures l0 = []" "velocity_distributions l0 = []" "levels_distributions l0 = []"
    using run_init_fields[of g "nat n_atoms" w] ri by simp_all
  from steps_loop_ok[OF inv0, of g dt ts]
  obtain w' l' where lp: "steps_loop g dt ts (w1, l0) = Inr (w', l')"
    and inv': "step_inv (nat n_atoms) (w', l')"
    and sm: "velocities l' = velocities l0" "positions l' = positions l0"
    and sd: "steps_done w' = steps_done w1 + length ts"
    and r1: "velocities_to_avg l' = velocities_to_avg l0 @ replicate (length ts) (velocities l0)"
    and r2: "positions_to_avg l' = positions_to_avg l0 @ replicate (length ts) (positions l0)"
    and t1: "\<exists>ext. temperatures l' = temperatures l0 @ ext \<and> length ext = length ts"
    and t2: "\<exists>ext. velocity_distributions l' = velocity_distributions l0 @ ext
                    \<and> length ext = length ts \<and> (\<forall>d \<in> set ext. length d = 4)"
    and t3: "\<exists>ext. levels_distributions l' = levels_distributions l0 @ ext
                    \<and> length ext = length ts \<and> (\<forall>d \<in> set ext. population_ok (nat n_atoms) d)"
    by blast
  have sh: "run_shape (nat n_atoms) (nat \<lceil>time_max / dt\<rceil>) l'"
    using r1 r2 t1 t2 t3 f0 len sm by (auto simp: run_shape_def)
  have run: "run_once g n_atoms time_max dt w = Inr (ts, w', l')"
    using assms(1) by (simp add: run_once_def ar ri lp)
  show ?thesis
    using run inv' sd sh f0(1) len unfolding ts_def[symmetric] by auto
qed

lemma accum_shape_step:
  assumes "accum_shape n N m acc" "run_shape n N l"
  shows "accum_shape n N (Suc m)
           (acc\<lparr>times_last := ts,
                velocities_all := velocities_all acc @ [velocities_to_avg l],
                positions_all := positions_all acc @ [positions_to_avg l],
                temperatures_all := temperatures_all acc @ [temperatures l],
                level_populations_all := level_populations_all acc @ [levels_distributions l],
                velocity_distributions_all :=
                  velocity_distributions_all acc @ [velocity_distributions l]\<rparr>)"
  using assms by (simp add: accum_shape_def run_shape_def)

lemma runs_loop_ok:
  assumes "0 \<le> n_atoms" "dt \<noteq> 0" "accum_shape (nat n_atoms) (nat \<lceil>time_max / dt\<rceil>) m0 acc"
  shows "\<exists>w' acc'. runs_loop g n_atoms time_max dt m (w, acc) = Inr (w', acc')
           \<and> accum_shape (nat n_atoms) (nat \<lceil>time_max / dt\<rceil>) (m0 + m) acc'
           \<and> steps_done w' = steps_done w + m * nat \<lceil>time_max / dt\<rceil>
           \<and> (0 < m \<longrightarrow> times_last acc' = map (\<lambda>i. real i * dt) [0..<nat \<lceil>time_max / dt\<rceil>])"
  using assms(3)
proof (induction m arbitrary: w acc m0)
  case 0
  then show ?case by simp
next
  case (Suc m)
  from run_once_ok[OF assms(1,2), of g time_max w]
  obtain w1 l where ro: "run_once g n_atoms time_max dt w =
                  Inr (map (\<lambda>i. real i * dt) [0..<nat \<lceil>time_max / dt\<rceil>], w1, l)"
    and sd: "steps_done w1 = steps_done w + nat \<lceil>time_max / dt\<rceil>"
    and sh: "run_shape (nat n_atoms) (nat \<lceil>time_max / dt\<rceil>) l"
    by blast
  define acc1 where "acc1 = acc\<lparr>times_last := map (\<lambda>i. real i * dt) [0..<nat \<lceil>time_max / dt\<rceil>],
                velocities_all := velocities_all acc @ [velocities_to_avg l],
                positions_all := positions_all acc @ [positions_to_avg l],
                temperatures_all := temperatures_all acc @ [temperatures l],
                level_populations_all := level_populations_all acc @ [levels_distributions l],
                velocity_distributions_all :=
                  velocity_distributions_all acc @ [velocity_distributions l]\<rparr>"
  have a1: "accum_shape (nat n_atoms) (nat \<lceil>time_max / dt\<rceil>) (Suc m0) acc1"
    unfolding acc1_def by (rule accum_shape_step[OF Suc.prems sh])
  have tl: "times_last acc1 = map (\<lambda>i. real i * dt) [0..<nat \<lceil>time_max / dt\<rceil>]"
    by (simp add: acc1_def)
  have unf: "runs_loop g n_atoms time_max dt (Suc m) (w, acc) = runs_loop g n_atoms time_max dt m (w1, acc1)"
    by (simp add: ro acc1_def)
  from Suc.IH[OF a1, of w1]
  obtain w' acc' where rl: "runs_loop g n_atoms time_max dt m (w1, acc1) = Inr (w', acc')"
    and a': "accum_shape (nat n_atoms) (nat \<lceil>time_max / dt\<rceil>) (Suc m0 + m) acc'"
    and sd': "steps_done w' = steps_done w1 + m * nat \<lceil>time_max / dt\<rceil>"
    and tl': "0 < m \<longrightarrow> times_last acc' = map (\<lambda>i. real i * dt) [0..<nat \<lceil>time_max / dt\<rceil>]"
    by blast
  have tl0: "m = 0 \<Longrightarrow> acc' = acc1" using rl by simp
  have t: "times_last acc' = map (\<lambda>i. real i * dt) [0..<nat \<lceil>time_max / dt\<rceil>]"
    using tl' tl0 tl by (cases m) auto
  have s: "steps_done w' = steps_done w + Suc m * nat \<lceil>time_max / dt\<rceil>"
    using sd sd' by simp
  have a'': "accum_shape (nat n_atoms) (nat \<lceil>time_max / dt\<rceil>) (m0 + Suc m) acc'"
    using a' by simp
  from unf rl a'' s t show ?case by simp
qed

lemma mean_axis0_length: "length (mean_axis0 (xs # xss)) = length xs"
  by (simp add: mean_axis0_def)

lemma mean_axis0_vec_length: "length (mean_axis0_vec (r # rs)) = length r"
  by (simp add: mean_axis0_vec_def)

lemma empty_accum_shape:
  "accum_shape n N 0 \<lparr>times_last = [], positions_all = [], velocities_all = [],
                  temperatures_all = [], velocity_distributions_all = [],
                  level_populations_all = []\<rparr>"
  by (simp add: accum_shape_def)

lemma simulate_mot_ok:
  assumes "1 \<le> n_simulations" "0 \<le> n_atoms" "dt \<noteq> 0" "0 < time_max / dt"
  shows "\<exists>out w'. simulate_mot g n_atoms time_max dt n_simulations w = Inr (out, w')
           \<and> times_arr out = map (\<lambda>i. real i * dt) [0..<nat \<lceil>time_max / dt\<rceil>]
           \<and> length (avg_positions out) = nat n_simulations
           \<and> length (avg_velocities out) = nat n_simulations
           \<and> length (avg_temperatures out) = nat \<lceil>time_max / dt\<rceil>
           \<and> length (avg_level_populations out) = nat \<lceil>time_max / dt\<rceil>
           \<and> length (avg_velocity_distributions out) = nat \<lceil>time_max / dt\<rceil>
           \<and> steps_done w' = steps_done w + nat n_simulations * nat \<lceil>time_max / dt\<rceil>"
proof -
  define N where "N = nat \<lceil>time_max / dt\<rceil>"
  have Npos: "0 < N" using assms(4) by (simp add: N_def)
  have mpos: "0 < nat n_simulations" using assms(1) by simp
  from runs_loop_ok[OF assms(2,3) empty_accum_shape, where time_max = time_max and g = g
      and m = "nat n_simulations" and w = w]
  obtain w' acc where rl: "runs_loop g n_atoms time_max dt (nat n_simulations)
             (w, \<lparr>times_last = [], positions_all = [], velocities_all = [],
                  temperatures_all = [], velocity_distributions_all = [],
                  level_populations_all = []\<rparr>) = Inr (w', acc)"
    and sh: "accum_shape (nat n_atoms) N (nat n_simulations) acc"
    and sd: "steps_done w' = steps_done w + nat n_simulations * N"
    and tl: "times_last acc = map (\<lambda>i. real i * dt) [0..<N]"
    using mpos unfolding N_def by auto
  from sh mpos obtain p ps where pa: "positions_all acc = p # ps"
    by (cases "positions_all acc") (auto simp: accum_shape_def)
  from sh mpos obtain t tt where ta: "temperatures_all acc = t # tt" and tN: "length t = N"
    by (cases "temperatures_all acc") (auto simp: accum_shape_def)
  from sh mpos obtain v vv where va: "velocity_distributions_all acc = v # vv" and vN: "length v = N"
    by (cases "velocity_distributions_all acc") (auto simp: accum_shape_def)
  from sh mpos obtain q qq where qa: "level_populations_all acc = q # qq" and qN: "length q = N"
    by (cases "level_populations_all acc") (auto simp: accum_shape_def)
  have ne: "mean_axis0 (temperatures_all acc) \<noteq> []"
    using mean_axis0_length[of t tt] tN Npos unfolding ta by auto
  have lens: "length (positions_all acc) = nat n_simulations" "length (velocities_all acc) = nat n_simulations"
    using sh by (simp_all add: accum_shape_def)
  show ?thesis
    unfolding N_def[symmetric]
    using ne pa lens tl sd tN vN qN
    by (simp add: simulate_mot_def rl N_def[symmetric] mean_axis0_length[of t tt, folded ta]
        mean_axis0_vec_length[of v vv, folded va] mean_axis0_vec_length[of q qq, folded qa])
qed

lemma mean_single: "mean [x] = x"
  by (simp add: mean_def)

lemma mean_axis0_single: "mean_axis0 [xs] = xs"
  by (simp add: mean_axis0_def mean_single map_nth)

lemma mean_opt_single: "mean_opt [x] = x"
  by (cases x) (simp_all add: mean_opt_def mean_single)

lemma mean_axis0_vec_single: "mean_axis0_vec [r] = r"
proof -
  have "\<And>t. map (\<lambda>b. r ! t ! b) [0..<length (r ! t)] = r ! t" by (rule map_nth)
  then show ?thesis by (simp add: mean_axis0_vec_def mean_opt_single map_nth)
qed

lemma simulate_mot_single:
  assumes "run_once g n_atoms time_max dt w = Inr (ts, w', l)" "temperatures l \<noteq> []"
  shows "simulate_mot g n_atoms time_max dt 1 w =
           Inr (\<lparr>times_arr = ts,
                 avg_positions = [mean_axis0 (map (farr w') (positions_to_avg l))],
                 avg_velocities = [mean_axis0 (map (farr w') (velocities_to_avg l))],
                 avg_temperatures = temperatures l,
                 avg_level_populations = levels_distributions l,
                 avg_velocity_distributions = velocity_distributions l\<rparr>, w')"
  using assms
  by (simp add: simulate_mot_def mean_axis0_single mean_axis0_vec_single)

lemma mean_replicate: "mean (replicate (Suc m) x) = x"
proof -
  have "sum_list (replicate (Suc m) x) = real (Suc m) * x"
    by (induction m) (simp_all add: algebra_simps)
  then show ?thesis by (simp add: mean_def)
qed

lemma mean_axis0_replicate:
  assumes "0 < N"
  shows "mean_axis0 (replicate N xs) = xs"
proof -
  obtain m where N: "N = Suc m" using assms by (cases N) auto
  have "mean_axis0 (replicate (Suc m) xs)
          = map (\<lambda>j. mean (map (\<lambda>ys. ys ! j) (replicate (Suc m) xs))) [0..<length xs]"
    by (simp add: mean_axis0_def)
  also have "\<dots> = map (\<lambda>j. mean (replicate (Suc m) (xs ! j))) [0..<length xs]"
    by (simp only: map_replicate)
  also have "\<dots> = xs"
    by (simp only: mean_replicate map_nth)
  finally show ?thesis unfolding N .
qed

lemma mask_select_indices:
  assumes "length ps = length vs"
  shows "map snd (filter fst (zip (map P ps) vs))
           = map (\<lambda>i. vs ! i) (filter (\<lambda>i. P (ps ! i)) [0..<length ps])"
proof -
  have z: "zip (map P ps) vs = map (\<lambda>i. (P (ps ! i), vs ! i)) [0..<length ps]"
    by (rule nth_equalityI) (use assms in auto)
  show ?thesis
    unfolding z by (simp add: filter_map comp_def)
qed

lemma trapped_temperature_sum:
  assumes "length ps = length vs"
  shows "trapped_temperature ps vs =
           (if {i. i < length ps \<and> \<bar>ps ! i\<bar> < beam_radius} = {} then 0
            else (\<Sum>i \<in> {i. i < length ps \<and> \<bar>ps ! i\<bar> < beam_radius}. mass_Rb * (vs ! i) ^ 2)
                   / real (card {i. i < length ps \<and> \<bar>ps ! i\<bar> < beam_radius}) / k)"
proof -
  define idx where "idx = filter (\<lambda>i. \<bar>ps ! i\<bar> < beam_radius) [0..<length ps]"
  have sel: "map snd (filter fst (zip (map (\<lambda>p. \<bar>p\<bar> < beam_radius) ps) vs)) = map (\<lambda>i. vs ! i) idx"
    unfolding idx_def by (rule mask_select_indices[OF assms])
  have d: "distinct idx" by (simp add: idx_def)
  have s: "set idx = {i. i < length ps \<and> \<bar>ps ! i\<bar> < beam_radius}" by (auto simp: idx_def)
  have c: "length idx = card {i. i < length ps \<and> \<bar>ps ! i\<bar> < beam_radius}"
    using distinct_card[OF d] s by simp
  have sm: "sum_list (map (\<lambda>v. mass_Rb * v ^ 2) (map (\<lambda>i. vs ! i) idx))
          = (\<Sum>i \<in> {i. i < length ps \<and> \<bar>ps ! i\<bar> < beam_radius}. mass_Rb * (vs ! i) ^ 2)"
    using sum_list_distinct_conv_sum_set[OF d, of "\<lambda>i. mass_Rb * (vs ! i) ^ 2"] s
    by (simp add: comp_def)
  have e: "idx = [] \<longleftrightarrow> {i. i < length ps \<and> \<bar>ps ! i\<bar> < beam_radius} = {}"
    using s by (metis set_empty)
  show ?thesis
    unfolding trapped_temperature_def Let_def sel
    using e sm c by (simp add: mean_def)
qed

lemma trapped_temperature_nonneg: "0 \<le> trapped_temperature ps vs"
proof -
  have sm: "0 \<le> sum_list (map (\<lambda>v. mass_Rb * v ^ 2) xs)" for xs
    by (rule sum_list_nonneg) (auto simp: mass_Rb_def)
  have mn: "0 \<le> mean (map (\<lambda>v. mass_Rb * v ^ 2) xs)" for xs
    unfolding mean_def by (rule divide_nonneg_nonneg[OF sm]) simp
  have kp: "0 \<le> k" by (simp add: k_def)
  have "0 \<le> mean (map (\<lambda>v. mass_Rb * v ^ 2) xs) / k" for xs
    by (rule divide_nonneg_nonneg[OF mn kp])
  then show ?thesis
    unfolding trapped_temperature_def Let_def by (simp only: if_split) simp
qed

lemma steps_loop_at:
  assumes "step_inv n (w, l)" "j < length ts"
  shows "\<exists>wj lj w' l'. steps_loop g dt (take (Suc j) ts) (w, l) = Inr (wj, lj)
           \<and> steps_loop g dt ts (w, l) = Inr (w', l')
           \<and> step_inv n (wj, lj)
           \<and> temperatures l' ! (length (temperatures l) + j)
               = trapped_temperature (farr wj (positions lj)) (farr wj (velocities lj))"
proof -
  have ts: "ts = take j ts @ [ts ! j] @ drop (Suc j) ts"
    using assms(2) by (simp add: Cons_nth_drop_Suc)
  have tk: "take (Suc j) ts = take j ts @ [ts ! j]"
    using assms(2) by (simp add: take_Suc_conv_app_nth)
  from steps_loop_ok[OF assms(1), of g dt "take j ts"]
  obtain wa la where a: "steps_loop g dt (take j ts) (w, l) = Inr (wa, la)"
    and inva: "step_inv n (wa, la)"
    and ta: "\<exists>ext. temperatures la = temperatures l @ ext \<and> length ext = length (take j ts)"
    by blast
  from ta assms(2) have lena: "length (temperatures la) = length (temperatures l) + j" by auto
  from mot_step_ok[OF inva, of g dt]
  obtain wj lj where st: "mot_step g dt (wa, la) = Inr (wj, lj)" and invj: "step_inv n (wj, lj)"
    and same: "velocities lj = velocities la" "positions lj = positions la"
    and tj: "temperatures lj = temperatures la @
                [trapped_temperature (farr wj (positions la)) (farr wj (velocities la))]"
    by blast
  from steps_loop_ok[OF invj, of g dt "drop (Suc j) ts"]
  obtain w' l' where b: "steps_loop g dt (drop (Suc j) ts) (wj, lj) = Inr (w', l')"
    and tb: "\<exists>ext. temperatures l' = temperatures lj @ ext \<and> length ext = length (drop (Suc j) ts)"
    by blast
  have one: "steps_loop g dt [ts ! j] (wa, la) = Inr (wj, lj)" by (simp add: st)
  have pre: "steps_loop g dt (take (Suc j) ts) (w, l) = Inr (wj, lj)"
    unfolding tk by (simp add: steps_loop_append a st)
  have all: "steps_loop g dt ts (w, l) = Inr (w', l')"
    by (subst ts) (simp add: steps_loop_append a st b)
  from tb obtain ext where "temperatures l' = temperatures lj @ ext" by blast
  then have "temperatures l' ! (length (temperatures l) + j)
               = trapped_temperature (farr wj (positions la)) (farr wj (velocities la))"
    using tj lena by (simp add: nth_append)
  then show ?thesis using pre all invj same by auto
qed

section \<open>Claims about the level models and the force\<close>

text \<open>
  C4, as the code has it. The function returns the reference it was given and keeps the
  size of the array. For every atom the six pairs of the table are tried in the order of
  the table, each with a draw of its own, and each pair is compared with the level the
  atom has at that moment, which may be a level that an earlier pair of the same call has
  just set: the scan has no exit after the first change.
\<close>

theorem transition_scan:
  assumes "i < length (iarr w lref)"
  shows "fst (transition_between_levels g w lref T dt) = lref
       \<and> length (iarr (snd (transition_between_levels g w lref T dt)) lref) = length (iarr w lref)
       \<and> iarr (snd (transition_between_levels g w lref T dt)) lref ! i =
           foldl (\<lambda>lev (((s, e), p), u).
                    if u < p * exp (- \<bar>real_of_int (s - e)\<bar> * T / k) * dt \<and> lev = s then e else lev)
             (iarr w lref ! i)
             (zip transition_probabilities (map g [draws w + 6 * i..<draws w + 6 * i + 6]))"
  using assms by (simp add: transition_result)

theorem transition_scan_witness:
  "fst (transition_between_levels (\<lambda>_. 0) w_one 1 0 1) = 1
   \<and> length (iarr (snd (transition_between_levels (\<lambda>_. 0) w_one 1 0 1)) 1) = 1
   \<and> iarr (snd (transition_between_levels (\<lambda>_. 0) w_one 1 0 1)) 1 ! 0 = 2"
  using transition_scan[of 0 w_one 1 "\<lambda>_. 0" 0 1]
  by (simp add: w_one_def transition_probabilities_def upt_rec)

text \<open>
  C4, as the specification states it, fails: with every draw equal to 0, temperature 0 and
  time step 1, an atom at level 0 ends the call at level 2 (through 1, 2 and 3), although
  level 1 is the only level that one transition of the table reaches from level 0.
\<close>

theorem transition_first_match_counterexample:
  "iarr (snd (transition_between_levels (\<lambda>_. 0) w_one 1 0 1)) 1 = [2]
   \<and> iarr w_one 1 = [0]
   \<and> map (\<lambda>((s, e), p). e) (filter (\<lambda>((s, e), p). s = 0) transition_probabilities) = [1]"
  by (simp add: transition_between_levels_def w_one_def transition_probabilities_def)

text \<open>
  C6, as the code has it. For detuning 0, velocity 0 and radial position 0 the force is
  hbar k\_eff I Gamma / (2 (1 + s)) with s = I / I\_s and the perturbed wavenumber
  k\_eff = 2 pi / (wavelength (1 + eps)), where eps is the wavelength perturbation drawn in
  the call; two draws are consumed. The value is the one with the nominal wavenumber when
  the perturbation is zero.
\<close>

theorem scattering_force_at_rest:
  "fst (scattering_force g c 0 0 I 0 dw dm)
     = hbar * (2 * pi / (wavelength * (1 + dw * g c))) * I * Gamma / (2 * (1 + I / I_s))
   \<and> snd (scattering_force g c 0 0 I 0 dw dm) = c + 2
   \<and> (dw * g c = 0 \<longrightarrow>
        fst (scattering_force g c 0 0 I 0 dw dm) = hbar * k_L * I * Gamma / (2 * (1 + I / I_s)))"
  by (simp add: scattering_force_def normal_def k_L_def Let_def)

theorem scattering_force_at_rest_witness:
  "fst (scattering_force (\<lambda>_. 0) 0 0 0 25 0 wavelength_fluctuation magnetic_fluctuation)
     = hbar * (2 * pi / wavelength) * 25 * Gamma / 4 \<and>
   fst (scattering_force (\<lambda>_. 0) 0 0 0 25 0 wavelength_fluctuation magnetic_fluctuation)
     = hbar * k_L * 25 * Gamma / 4"
  using scattering_force_at_rest[of "\<lambda>_. 0" 0 25 wavelength_fluctuation magnetic_fluctuation]
  by (simp add: I_s_def k_L_def)

text \<open>
  C6, as the specification states it, fails: when the normal deviate of the call is 1, the
  force at intensity 25 differs from the value with the nominal wavenumber.
\<close>

theorem scattering_force_nominal_counterexample:
  "fst (scattering_force (\<lambda>_. 1) 0 0 0 25 0 wavelength_fluctuation magnetic_fluctuation)
     \<noteq> hbar * k_L * 25 * Gamma / (2 * (1 + 25 / I_s))"
  apply (simp add: scattering_force_def normal_def k_L_def Let_def I_s_def hbar_def Gamma_def wavelength_def wavelength_fluctuation_def)
  done

text \<open>
  C9. When velocities and levels have the same size, the repumper returns a new array of
  that size. The temperature enters only as max(T, 1e-12). An atom at level 0 is at level
  1 afterwards exactly when its own uniform draw (the draw with the index of the atom) is
  below repumper\_effect (I\_repumper / I\_s) exp(- v^2 / (2 k T\_clamped / m)) for its own
  velocity v, and stays at level 0 otherwise. An atom that was not at level 0 is at level
  1 afterwards only if it was at level 1 before.
\<close>

theorem repumper_promotion:
  assumes "length (farr w vref) = length (iarr w lref)" and "i < length (iarr w lref)"
  shows "\<exists>a w'. repumper_effect_on_levels g w lref vref I_repumper T dw = Inr (a, w')
           \<and> length (iarr w' a) = length (iarr w lref)
           \<and> (iarr w lref ! i = 0 \<longrightarrow>
                iarr w' a ! i =
                  (if g (draws w + 1 + i)
                        < repumper_effect * I_repumper / I_s
                          * exp (- ((farr w vref ! i) ^ 2) / (2 * k * max T (1 / 10 ^ 12) / mass_Rb))
                   then 1 else 0))
           \<and> (iarr w lref ! i \<noteq> 0 \<longrightarrow> iarr w' a ! i = 1 \<longrightarrow> iarr w lref ! i = 1)"
  using assms by (simp add: repumper_result)

theorem repumper_promotion_witness:
  "\<exists>a w'. repumper_effect_on_levels (\<lambda>_. 0) w_one 1 0 repumper_intensity 0 wavelength_fluctuation
             = Inr (a, w')
         \<and> length (iarr w' a) = 1 \<and> iarr w' a ! 0 = 1"
  using repumper_promotion[of w_one 0 1 0 "\<lambda>_. 0" repumper_intensity 0 wavelength_fluctuation]
  by (simp add: w_one_def repumper_intensity_def repumper_effect_def I_s_def)

text \<open>
  C10. The repumper writes its result to a fresh address: the returned reference is the
  next free address and differs from the reference of the input, the input array and
  every other integer array hold what they held before, and no float array changes. When
  the call ends in an error no state is returned. With velocities and levels of the same
  size the call returns.
\<close>

theorem repumper_input_unchanged:
  assumes "lref < next_addr w"
  shows "(case repumper_effect_on_levels g w lref vref I_repumper T dw of
            Inl e \<Rightarrow> True
          | Inr (a, w') \<Rightarrow>
              a = next_addr w \<and> a \<noteq> lref \<and> iarr w' lref = iarr w lref
              \<and> (\<forall>b. b \<noteq> a \<longrightarrow> iarr w' b = iarr w b) \<and> farr w' = farr w)
         \<and> (length (farr w vref) = length (iarr w lref) \<longrightarrow>
              (\<exists>a w'. repumper_effect_on_levels g w lref vref I_repumper T dw = Inr (a, w')))"
proof -
  have ne: "next_addr w \<noteq> lref" using assms by simp
  have frame: "case repumper_effect_on_levels g w lref vref I_repumper T dw of
            Inl e \<Rightarrow> True
          | Inr (a, w') \<Rightarrow>
              a = next_addr w \<and> a \<noteq> lref \<and> iarr w' lref = iarr w lref
              \<and> (\<forall>b. b \<noteq> a \<longrightarrow> iarr w' b = iarr w b) \<and> farr w' = farr w"
    using ne
    by (auto simp add: repumper_effect_on_levels_def Let_def split: sum.splits)
  have total: "length (farr w vref) = length (iarr w lref) \<longrightarrow>
              (\<exists>a w'. repumper_effect_on_levels g w lref vref I_repumper T dw = Inr (a, w'))"
    by (simp add: repumper_result)
  show ?thesis using frame total by (rule conjI)
qed

theorem repumper_input_unchanged_witness:
  "\<exists>a w'. repumper_effect_on_levels (\<lambda>_. 0) w_one 1 0 repumper_intensity 0 wavelength_fluctuation
             = Inr (a, w')
         \<and> a = 2 \<and> iarr w' 1 = [0] \<and> iarr w' a = [1] \<and> farr w' 0 = [0]"
  using repumper_input_unchanged[of 1 w_one "\<lambda>_. 0" 0 repumper_intensity 0 wavelength_fluctuation]
  by (simp add: w_one_def repumper_result repumper_intensity_def repumper_effect_def I_s_def)

section \<open>Claims about the time loop, the runs and the averages\<close>

text \<open>
  C1, as the code has it. For a configuration that runs (at least one run, no negative
  number of atoms, a step that is not zero and a positive quotient of the duration and
  the step), the averaged positions and velocities have one row per run: their first axis
  has the length n\_simulations, because the mean of lines 230 and 231 is taken along axis
  1, the axis of the steps. The times and the three other series, averaged along axis 0,
  have one entry per step. So the averaged positions are not indexed by the step, and they
  are not a mean across the runs.
\<close>

theorem simulate_mot_positions_axis:
  assumes "1 \<le> n_simulations" "0 \<le> n_atoms" "dt \<noteq> 0" "0 < time_max / dt"
  shows "\<exists>out w'. simulate_mot g n_atoms time_max dt n_simulations w = Inr (out, w')
           \<and> length (avg_positions out) = nat n_simulations
           \<and> length (avg_velocities out) = nat n_simulations
           \<and> length (times_arr out) = nat \<lceil>time_max / dt\<rceil>
           \<and> length (avg_temperatures out) = nat \<lceil>time_max / dt\<rceil>
           \<and> length (avg_level_populations out) = nat \<lceil>time_max / dt\<rceil>
           \<and> length (avg_velocity_distributions out) = nat \<lceil>time_max / dt\<rceil>"
proof -
  from simulate_mot_ok[OF assms, of g w]
  obtain out w' where "simulate_mot g n_atoms time_max dt n_simulations w = Inr (out, w')"
    "times_arr out = map (\<lambda>i. real i * dt) [0..<nat \<lceil>time_max / dt\<rceil>]"
    "length (avg_positions out) = nat n_simulations"
    "length (avg_velocities out) = nat n_simulations"
    "length (avg_temperatures out) = nat \<lceil>time_max / dt\<rceil>"
    "length (avg_level_populations out) = nat \<lceil>time_max / dt\<rceil>"
    "length (avg_velocity_distributions out) = nat \<lceil>time_max / dt\<rceil>"
    by blast
  then show ?thesis by simp
qed

theorem simulate_mot_positions_axis_witness:
  "\<exists>out w'. simulate_mot (\<lambda>_. 0) 1 2 1 1 w_one = Inr (out, w')
     \<and> length (avg_positions out) = 1 \<and> length (avg_velocities out) = 1
     \<and> length (times_arr out) = 2 \<and> length (avg_temperatures out) = 2
     \<and> length (avg_level_populations out) = 2 \<and> length (avg_velocity_distributions out) = 2"
  using simulate_mot_positions_axis[of 1 1 1 2 "\<lambda>_. 0" w_one]
  by simp

text \<open>
  C2, as the code has it. With one run, the times, the temperatures, the level populations
  and the per-level mean velocities returned by simulate\_mot are those of the run. The
  positions and velocities are not: the snapshot list of the run, read through its
  references, has one array per step (each the same final array, since the list holds the
  reference of an array changed in place), while simulate\_mot returns a single row, the
  final array.
\<close>

theorem simulate_mot_one_run:
  assumes "0 \<le> n_atoms" "dt \<noteq> 0" "0 < time_max / dt"
  shows "\<exists>ts w' l out. run_once g n_atoms time_max dt w = Inr (ts, w', l)
           \<and> simulate_mot g n_atoms time_max dt 1 w = Inr (out, w')
           \<and> times_arr out = ts
           \<and> avg_temperatures out = temperatures l
           \<and> avg_level_populations out = levels_distributions l
           \<and> avg_velocity_distributions out = velocity_distributions l
           \<and> length ts = nat \<lceil>time_max / dt\<rceil>
           \<and> map (farr w') (positions_to_avg l) = replicate (length ts) (farr w' (positions l))
           \<and> map (farr w') (velocities_to_avg l) = replicate (length ts) (farr w' (velocities l))
           \<and> avg_positions out = [farr w' (positions l)]
           \<and> avg_velocities out = [farr w' (velocities l)]"
proof -
  define N where "N = nat \<lceil>time_max / dt\<rceil>"
  from run_once_ok[OF assms(1,2), of g time_max w]
  obtain w' l where ro: "run_once g n_atoms time_max dt w =
                  Inr (map (\<lambda>i. real i * dt) [0..<N], w', l)"
    and sh: "run_shape (nat n_atoms) N l"
    unfolding N_def by blast
  have Npos: "0 < N" using assms(3) by (simp add: N_def)
  have ne: "temperatures l \<noteq> []" using sh Npos by (auto simp: run_shape_def)
  have pv: "positions_to_avg l = replicate N (positions l)"
    "velocities_to_avg l = replicate N (velocities l)"
    using sh by (simp_all add: run_shape_def)
  have m1: "mean_axis0 (map (farr w') (positions_to_avg l)) = farr w' (positions l)"
    unfolding pv by (simp add: mean_axis0_replicate[OF Npos])
  have m2: "mean_axis0 (map (farr w') (velocities_to_avg l)) = farr w' (velocities l)"
    unfolding pv by (simp add: mean_axis0_replicate[OF Npos])
  show ?thesis
    unfolding N_def[symmetric]
    by (simp add: ro simulate_mot_single[OF ro ne] mean_axis0_replicate[OF Npos] pv)
qed

theorem simulate_mot_one_run_witness:
  "\<exists>ts w' l out. run_once (\<lambda>_. 0) 1 2 1 w_one = Inr (ts, w', l)
     \<and> simulate_mot (\<lambda>_. 0) 1 2 1 1 w_one = Inr (out, w')
     \<and> times_arr out = ts
     \<and> avg_temperatures out = temperatures l
     \<and> avg_level_populations out = levels_distributions l
     \<and> avg_velocity_distributions out = velocity_distributions l
     \<and> length ts = 2
     \<and> map (farr w') (positions_to_avg l) = [farr w' (positions l), farr w' (positions l)]
     \<and> map (farr w') (velocities_to_avg l) = [farr w' (velocities l), farr w' (velocities l)]
     \<and> avg_positions out = [farr w' (positions l)]
     \<and> avg_velocities out = [farr w' (velocities l)]"
proof -
  have n: "nat \<lceil>2 / 1 :: real\<rceil> = 2" by simp
  have r: "replicate 2 x = [x, x]" for x :: "real list" by (simp add: numeral_2_eq_2)
  from simulate_mot_one_run[of 1 1 2 "\<lambda>_. 0" w_one]
  obtain ts w' l out where h: "run_once (\<lambda>_. 0) 1 2 1 w_one = Inr (ts, w', l)"
    "simulate_mot (\<lambda>_. 0) 1 2 1 1 w_one = Inr (out, w')"
    "times_arr out = ts" "avg_temperatures out = temperatures l"
    "avg_level_populations out = levels_distributions l"
    "avg_velocity_distributions out = velocity_distributions l"
    "length ts = 2"
    "map (farr w') (positions_to_avg l) = replicate (length ts) (farr w' (positions l))"
    "map (farr w') (velocities_to_avg l) = replicate (length ts) (farr w' (velocities l))"
    "avg_positions out = [farr w' (positions l)]"
    "avg_velocities out = [farr w' (velocities l)]"
    unfolding n by auto
  from h(8,9) have p: "map (farr w') (positions_to_avg l) = [farr w' (positions l), farr w' (positions l)]"
    "map (farr w') (velocities_to_avg l) = [farr w' (velocities l), farr w' (velocities l)]"
    unfolding h(7) r by simp_all
  show ?thesis
    apply (rule exI[of _ ts], rule exI[of _ w'], rule exI[of _ l], rule exI[of _ out])
    using h(1-7,10,11) p by simp
qed

text \<open>
  C3, as the code has it. There is no check of the configuration. With no run requested,
  a negative number of atoms, a step of zero, or a quotient of duration and step that is
  not positive, the call ends in an error of the library and returns nothing, and no body
  of the time loop has run (the count of completed steps is unchanged).
\<close>

theorem simulate_mot_degenerate_config:
  assumes "n_simulations \<le> 0 \<or> n_atoms < 0 \<or> dt = 0 \<or> time_max / dt \<le> 0"
  shows "\<exists>e w'. simulate_mot g n_atoms time_max dt n_simulations w = Inl (e, w')
           \<and> steps_done w' = steps_done w"
proof -
  consider (noruns) "n_simulations \<le> 0"
    | (zero) "0 < n_simulations" "dt = 0"
    | (neg) "0 < n_simulations" "dt \<noteq> 0" "n_atoms < 0"
    | (nosteps) "0 < n_simulations" "dt \<noteq> 0" "0 \<le> n_atoms" "time_max / dt \<le> 0"
    using assms by linarith
  then show ?thesis
  proof cases
    case noruns
    then have "nat n_simulations = 0" by simp
    then show ?thesis by (simp add: simulate_mot_def)
  next
    case zero
    then obtain m where m: "nat n_simulations = Suc m" by (cases "nat n_simulations") auto
    have "run_once g n_atoms time_max dt w = Inl (ZeroStep, w)"
      using zero by (simp add: run_once_def arange_def)
    then show ?thesis by (simp add: simulate_mot_def m)
  next
    case neg
    then obtain m where m: "nat n_simulations = Suc m" by (cases "nat n_simulations") auto
    have "run_once g n_atoms time_max dt w = Inl (NegativeDimensions, w)"
      using neg by (simp add: run_once_def arange_def)
    then show ?thesis by (simp add: simulate_mot_def m)
  next
    case nosteps
    have N0: "nat \<lceil>time_max / dt\<rceil> = 0" using nosteps(4) by simp
    have mpos: "0 < nat n_simulations" using nosteps(1) by simp
    from runs_loop_ok[OF nosteps(3,2) empty_accum_shape, where time_max = time_max and g = g
        and m = "nat n_simulations" and w = w]
    obtain w' acc where rl: "runs_loop g n_atoms time_max dt (nat n_simulations)
             (w, \<lparr>times_last = [], positions_all = [], velocities_all = [],
                  temperatures_all = [], velocity_distributions_all = [],
                  level_populations_all = []\<rparr>) = Inr (w', acc)"
      and sh: "accum_shape (nat n_atoms) 0 (nat n_simulations) acc"
      and sd: "steps_done w' = steps_done w"
      unfolding N0 by auto
    from sh mpos obtain p ps where pa: "positions_all acc = p # ps"
      by (cases "positions_all acc") (auto simp: accum_shape_def)
    from sh mpos obtain t tt where ta: "temperatures_all acc = t # tt" and tN: "length t = 0"
      by (cases "temperatures_all acc") (auto simp: accum_shape_def)
    have em: "mean_axis0 (temperatures_all acc) = []"
      using mean_axis0_length[of t tt] tN unfolding ta by simp
    show ?thesis
      using sd by (simp add: simulate_mot_def rl pa em)
  qed
qed

theorem simulate_mot_degenerate_config_witness:
  "(\<exists>e w'. simulate_mot (\<lambda>_. 0) 100 1 (1 / 10 ^ 4) 0 w_one = Inl (e, w') \<and> steps_done w' = 0)
   \<and> (\<exists>e w'. simulate_mot (\<lambda>_. 0) 100 1 (- 1) 3 w_one = Inl (e, w') \<and> steps_done w' = 0)"
  using simulate_mot_degenerate_config[of 0 100 "1 / 10 ^ 4" 1 "\<lambda>_. 0" w_one]
    simulate_mot_degenerate_config[of 3 100 "- 1" 1 "\<lambda>_. 0" w_one]
  by (simp add: w_one_def)

text \<open>
  C3, as the specification states it, fails: a configuration with zero atoms is accepted.
  With one run of one step the step is executed and a result is returned.
\<close>

theorem simulate_mot_no_atoms_counterexample:
  "\<exists>out w'. simulate_mot (\<lambda>_. 0) 0 1 1 1 w_one = Inr (out, w')
     \<and> steps_done w' = 1 \<and> length (avg_temperatures out) = 1 \<and> times_arr out = [0]"
proof -
  have sd: "steps_done w_one = 0" by (simp add: w_one_def)
  from simulate_mot_ok[of 1 0 1 1 "\<lambda>_. 0" w_one]
  obtain out w' where "simulate_mot (\<lambda>_. 0) 0 1 1 1 w_one = Inr (out, w')"
    "times_arr out = map (\<lambda>i. real i * 1) [0..<nat \<lceil>1 / 1 :: real\<rceil>]"
    "length (avg_temperatures out) = nat \<lceil>1 / 1 :: real\<rceil>"
    "steps_done w' = steps_done w_one + nat 1 * nat \<lceil>1 / 1 :: real\<rceil>"
    by auto
  then show ?thesis using sd by simp
qed

text \<open>
  C5, at a failing input: one atom, one run of one step, every draw equal to 0. The atom is
  at level 0 when the step records the per-level mean velocities, and the recorded vector
  is not-a-number in all four components: the code compares the levels with 1, 2, 3 and 4,
  so the atoms at level 0 are never averaged and the fourth component belongs to a level
  that no atom has.
\<close>

theorem level_velocity_record_level_zero:
  "\<exists>out w'. simulate_mot (\<lambda>_. 0) 1 1 1 1 w_one = Inr (out, w')
     \<and> avg_velocity_distributions out = [[None, None, None, None]]
     \<and> iarr (fst (run_init (\<lambda>_. 0) 1 w_one)) (levels (snd (run_init (\<lambda>_. 0) 1 w_one))) = [0]"
proof -
  obtain w0 l0 where ri: "run_init (\<lambda>_. 0) 1 w_one = (w0, l0)" by (metis prod.exhaust)
  have inv0: "step_inv 1 (w0, l0)"
    using run_init_inv[of 1 "\<lambda>_. 0" w_one] ri by simp
  have lv0: "iarr w0 (levels l0) = [0]"
    using ri by (auto simp: run_init_def Let_def rand_n_def choice_level_def)
  have e0: "velocity_distributions l0 = []" "temperatures l0 = []"
    using run_init_fields[of "\<lambda>_. 0" 1 w_one] ri by simp_all
  from mot_step_ok[OF inv0, of "\<lambda>_. 0" 1]
  obtain w1 l1 where st: "mot_step (\<lambda>_. 0) 1 (w0, l0) = Inr (w1, l1)"
    and tmp: "temperatures l1 = temperatures l0 @
                [trapped_temperature (farr w1 (positions l0)) (farr w1 (velocities l0))]"
    and vd: "velocity_distributions l1 = velocity_distributions l0 @
                [[level_velocity 1 (iarr w0 (levels l0)) (farr w1 (velocities l0)),
                  level_velocity 2 (iarr w0 (levels l0)) (farr w1 (velocities l0)),
                  level_velocity 3 (iarr w0 (levels l0)) (farr w1 (velocities l0)),
                  level_velocity 4 (iarr w0 (levels l0)) (farr w1 (velocities l0))]]"
    by blast
  have vd1: "velocity_distributions l1 = [[None, None, None, None]]"
    unfolding vd e0 lv0 by (simp add: level_velocity_def)
  have ne: "temperatures l1 \<noteq> []" unfolding tmp by simp
  have ar: "arange 0 1 1 = Inr [0]" by (simp add: arange_def)
  have ri': "run_init (\<lambda>_. 0) (Suc 0) w_one = (w0, l0)" using ri by simp
  have run: "run_once (\<lambda>_. 0) 1 1 1 w_one = Inr ([0], w1, l1)"
    by (simp add: run_once_def ar ri' st)
  show ?thesis
    using simulate_mot_single[OF run ne] vd1 lv0 by (simp add: ri')
qed

text \<open>
  C7. In every run that starts (no negative number of atoms, a step that is not zero) and
  for every step j of it, the temperature recorded at step j is computed from the
  positions and velocities as they are after j + 1 steps: it is 0 when no atom has
  |position| < beam\_radius, and otherwise the sum of m v^2 over exactly those atoms,
  divided by their number and by k; it is never negative.
\<close>

theorem trapped_temperature_recorded:
  assumes "0 \<le> n_atoms" "dt \<noteq> 0" "j < nat \<lceil>time_max / dt\<rceil>"
  shows "\<exists>ts w' l wj lj. run_once g n_atoms time_max dt w = Inr (ts, w', l)
           \<and> length (temperatures l) = length ts
           \<and> steps_loop g dt (take (Suc j) ts) (run_init g (nat n_atoms) w) = Inr (wj, lj)
           \<and> length (farr wj (positions lj)) = nat n_atoms
           \<and> length (farr wj (velocities lj)) = nat n_atoms
           \<and> temperatures l ! j =
                (if {i. i < nat n_atoms \<and> \<bar>farr wj (positions lj) ! i\<bar> < beam_radius} = {} then 0
                 else (\<Sum>i \<in> {i. i < nat n_atoms \<and> \<bar>farr wj (positions lj) ! i\<bar> < beam_radius}.
                          mass_Rb * (farr wj (velocities lj) ! i) ^ 2)
                      / real (card {i. i < nat n_atoms \<and> \<bar>farr wj (positions lj) ! i\<bar> < beam_radius})
                      / k)
           \<and> 0 \<le> temperatures l ! j"
proof -
  define ts where "ts = map (\<lambda>i. real i * dt) [0..<nat \<lceil>time_max / dt\<rceil>]"
  have len: "length ts = nat \<lceil>time_max / dt\<rceil>" by (simp add: ts_def)
  have ar: "arange 0 time_max dt = Inr ts"
    using assms(2) by (simp add: arange_def ts_def)
  obtain w0 l0 where ri: "run_init g (nat n_atoms) w = (w0, l0)" by (metis prod.exhaust)
  have inv0: "step_inv (nat n_atoms) (w0, l0)"
    using run_init_inv[of "nat n_atoms" g w] ri by simp
  have t0: "temperatures l0 = []" using run_init_fields(6)[of g "nat n_atoms" w] ri by simp
  have j: "j < length ts" using assms(3) len by simp
  from steps_loop_at[OF inv0 j, of g dt]
  obtain wj lj w' l' where pre: "steps_loop g dt (take (Suc j) ts) (w0, l0) = Inr (wj, lj)"
    and all: "steps_loop g dt ts (w0, l0) = Inr (w', l')"
    and invj: "step_inv (nat n_atoms) (wj, lj)"
    and tj: "temperatures l' ! (length (temperatures l0) + j)
               = trapped_temperature (farr wj (positions lj)) (farr wj (velocities lj))"
    by blast
  from steps_loop_ok[OF inv0, of g dt ts] all
  have "\<exists>ext. temperatures l' = temperatures l0 @ ext \<and> length ext = length ts" by auto
  then have lt: "length (temperatures l') = length ts" using t0 by auto
  have lp: "length (farr wj (positions lj)) = nat n_atoms"
    and lv: "length (farr wj (velocities lj)) = nat n_atoms"
    using invj by (simp_all add: step_inv_def)
  have run: "run_once g n_atoms time_max dt w = Inr (ts, w', l')"
    using assms(1) by (simp add: run_once_def ar ri all)
  have val: "temperatures l' ! j = trapped_temperature (farr wj (positions lj)) (farr wj (velocities lj))"
    using tj t0 by simp
  have form: "temperatures l' ! j =
                (if {i. i < nat n_atoms \<and> \<bar>farr wj (positions lj) ! i\<bar> < beam_radius} = {} then 0
                 else (\<Sum>i \<in> {i. i < nat n_atoms \<and> \<bar>farr wj (positions lj) ! i\<bar> < beam_radius}.
                          mass_Rb * (farr wj (velocities lj) ! i) ^ 2)
                      / real (card {i. i < nat n_atoms \<and> \<bar>farr wj (positions lj) ! i\<bar> < beam_radius})
                      / k)"
    unfolding val using trapped_temperature_sum[of "farr wj (positions lj)" "farr wj (velocities lj)"]
    by (simp only: lp lv)
  have nn: "0 \<le> temperatures l' ! j"
    unfolding val by (rule trapped_temperature_nonneg)
  from run lt pre lp lv form nn show ?thesis unfolding ri by blast
qed

theorem trapped_temperature_recorded_witness:
  "\<exists>ts w' l wj lj. run_once (\<lambda>_. 0) 1 1 1 w_one = Inr (ts, w', l)
           \<and> length (temperatures l) = length ts
           \<and> steps_loop (\<lambda>_. 0) 1 (take (Suc 0) ts) (run_init (\<lambda>_. 0) (nat 1) w_one) = Inr (wj, lj)
           \<and> length (farr wj (positions lj)) = nat 1
           \<and> length (farr wj (velocities lj)) = nat 1
           \<and> temperatures l ! 0 =
                (if {i. i < nat 1 \<and> \<bar>farr wj (positions lj) ! i\<bar> < beam_radius} = {} then 0
                 else (\<Sum>i \<in> {i. i < nat 1 \<and> \<bar>farr wj (positions lj) ! i\<bar> < beam_radius}.
                          mass_Rb * (farr wj (velocities lj) ! i) ^ 2)
                      / real (card {i. i < nat 1 \<and> \<bar>farr wj (positions lj) ! i\<bar> < beam_radius})
                      / k)
           \<and> 0 \<le> temperatures l ! 0"
  by (rule trapped_temperature_recorded[of 1 1 0 1 "\<lambda>_. 0" w_one]) simp_all

text \<open>
  C8. In every run with at least one atom (and a step that is not zero), after any number
  j of steps the arrays of positions, velocities and levels have the length n\_atoms, and
  every recorded level population has four components, none of them not-a-number, whose
  sum differs from 1 by at most 1e-9 (in real arithmetic the sum is 1).
\<close>

theorem run_shapes_and_populations:
  assumes "1 \<le> n_atoms" "dt \<noteq> 0" "j \<le> nat \<lceil>time_max / dt\<rceil>"
  shows "\<exists>ts w' l wj lj. run_once g n_atoms time_max dt w = Inr (ts, w', l)
           \<and> length ts = nat \<lceil>time_max / dt\<rceil>
           \<and> steps_loop g dt (take j ts) (run_init g (nat n_atoms) w) = Inr (wj, lj)
           \<and> length (farr wj (positions lj)) = nat n_atoms
           \<and> length (farr wj (velocities lj)) = nat n_atoms
           \<and> length (iarr wj (levels lj)) = nat n_atoms
           \<and> length (levels_distributions l) = length ts
           \<and> (\<forall>d \<in> set (levels_distributions l).
                 length d = 4 \<and> None \<notin> set d \<and> \<bar>sum_list (map the d) - 1\<bar> \<le> 1 / 10 ^ 9)"
proof -
  have n0: "0 \<le> n_atoms" and npos: "0 < nat n_atoms" using assms(1) by simp_all
  from run_once_ok[OF n0 assms(2), of g time_max w]
  obtain w' l where ro: "run_once g n_atoms time_max dt w =
                  Inr (map (\<lambda>i. real i * dt) [0..<nat \<lceil>time_max / dt\<rceil>], w', l)"
    and sh: "run_shape (nat n_atoms) (nat \<lceil>time_max / dt\<rceil>) l"
    by blast
  define ts where "ts = map (\<lambda>i. real i * dt) [0..<nat \<lceil>time_max / dt\<rceil>]"
  have len: "length ts = nat \<lceil>time_max / dt\<rceil>" by (simp add: ts_def)
  obtain w0 l0 where ri: "run_init g (nat n_atoms) w = (w0, l0)" by (metis prod.exhaust)
  have inv0: "step_inv (nat n_atoms) (w0, l0)"
    using run_init_inv[of "nat n_atoms" g w] ri by simp
  from steps_loop_ok[OF inv0, of g dt "take j ts"]
  obtain wj lj where pre: "steps_loop g dt (take j ts) (w0, l0) = Inr (wj, lj)"
    and invj: "step_inv (nat n_atoms) (wj, lj)"
    by blast
  have lens: "length (farr wj (positions lj)) = nat n_atoms"
    "length (farr wj (velocities lj)) = nat n_atoms"
    "length (iarr wj (levels lj)) = nat n_atoms"
    using invj by (simp_all add: step_inv_def)
  have ld: "length (levels_distributions l) = length ts"
    using sh len by (simp add: run_shape_def)
  have pops: "\<forall>d \<in> set (levels_distributions l).
                 length d = 4 \<and> None \<notin> set d \<and> \<bar>sum_list (map the d) - 1\<bar> \<le> 1 / 10 ^ 9"
    using sh npos by (auto simp: run_shape_def population_ok_def)
  from ro[folded ts_def] len pre lens ld pops show ?thesis unfolding ri by blast
qed

theorem run_shapes_and_populations_witness:
  "\<exists>ts w' l wj lj. run_once (\<lambda>_. 0) 1 1 1 w_one = Inr (ts, w', l)
           \<and> length ts = 1
           \<and> steps_loop (\<lambda>_. 0) 1 (take 1 ts) (run_init (\<lambda>_. 0) (nat 1) w_one) = Inr (wj, lj)
           \<and> length (farr wj (positions lj)) = 1
           \<and> length (farr wj (velocities lj)) = 1
           \<and> length (iarr wj (levels lj)) = 1
           \<and> length (levels_distributions l) = length ts
           \<and> (\<forall>d \<in> set (levels_distributions l).
                 length d = 4 \<and> None \<notin> set d \<and> \<bar>sum_list (map the d) - 1\<bar> \<le> 1 / 10 ^ 9)"
  using run_shapes_and_populations[of 1 1 1 1 "\<lambda>_. 0" w_one] by simp

end
